theory Spec2Isabelle
  imports Complex_Main "HOL-Library.Extended_Nat"
begin

section \<open>JavaScript strings\<close>

text \<open>
  The validator (\<^verbatim>\<open>lib/validators.ts\<close>, class \<^verbatim>\<open>IndonesianLawValidator\<close>) works on
  JavaScript strings. A string is modelled as a \<^typ>\<open>string\<close> whose characters are the code
  units \<^verbatim>\<open>U+0000\<close> to \<^verbatim>\<open>U+00FF\<close>; \<^const>\<open>length\<close> is then \<^verbatim>\<open>.length\<close>. JavaScript
  numbers are modelled as exact rationals: every score of the validator is an integer
  except the citation score and the confidence, which are quotients.
\<close>

definition code :: "char \<Rightarrow> int" where
  "code c = of_char c"

definition isDigit :: "char \<Rightarrow> bool" where
  "isDigit c = (48 \<le> code c \<and> code c \<le> 57)"

definition isUpperAscii :: "char \<Rightarrow> bool" where
  "isUpperAscii c = (65 \<le> code c \<and> code c \<le> 90)"

definition isLowerAscii :: "char \<Rightarrow> bool" where
  "isLowerAscii c = (97 \<le> code c \<and> code c \<le> 122)"

text \<open>\<^verbatim>\<open>\s\<close> and \<^verbatim>\<open>trim\<close>: tab, line feed, vertical tab, form feed, carriage return, space,
  no-break space.\<close>

definition isSpace :: "char \<Rightarrow> bool" where
  "isSpace c = (code c \<in> set [9, 10, 11, 12, 13, 32, 160])"

text \<open>\<^verbatim>\<open>\w\<close>: letters, digits and the underscore.\<close>

definition isWordChar :: "char \<Rightarrow> bool" where
  "isWordChar c = (isUpperAscii c \<or> isLowerAscii c \<or> isDigit c \<or> code c = 95)"

text \<open>The dot of a regular expression matches everything but a line terminator.\<close>

definition isLineTerminator :: "char \<Rightarrow> bool" where
  "isLineTerminator c = (code c = 10 \<or> code c = 13)"

text \<open>\<^verbatim>\<open>String.prototype.toLowerCase\<close>, on the letters of ASCII and of Latin-1.\<close>

definition toLowerChar :: "char \<Rightarrow> char" where
  "toLowerChar c =
     (if isUpperAscii c \<or> (192 \<le> code c \<and> code c \<le> 222 \<and> code c \<noteq> 215)
      then char_of (code c + 32) else c)"

definition toLowerCase :: "string \<Rightarrow> string" where
  "toLowerCase s = map toLowerChar s"

text \<open>Comparison under the flag \<^verbatim>\<open>i\<close> with the characters of the patterns, which are all
  ASCII: the letters of ASCII are compared in upper case, and a character outside ASCII is
  never identified with an ASCII one.\<close>

definition canonicalize :: "char \<Rightarrow> char" where
  "canonicalize c = (if isLowerAscii c then char_of (code c - 32) else c)"

primrec startsWith :: "string \<Rightarrow> string \<Rightarrow> bool" where
  "startsWith [] w = (w = [])"
| "startsWith (x # xs) w = (case w of [] \<Rightarrow> True | y # ys \<Rightarrow> x = y \<and> startsWith xs ys)"

text \<open>\<^verbatim>\<open>text.includes(w)\<close>\<close>

primrec includesStr :: "string \<Rightarrow> string \<Rightarrow> bool" where
  "includesStr [] w = (w = [])"
| "includesStr (x # xs) w = (startsWith (x # xs) w \<or> includesStr xs w)"

text \<open>\<^verbatim>\<open>text.indexOf(w)\<close>: the index of the first occurrence, \<^verbatim>\<open>-1\<close> when there is
  none. The third argument is the index of the head of the first.\<close>

primrec indexOfFrom :: "string \<Rightarrow> string \<Rightarrow> int \<Rightarrow> int" where
  "indexOfFrom [] w i = (if w = [] then i else - 1)"
| "indexOfFrom (x # xs) w i = (if startsWith (x # xs) w then i else indexOfFrom xs w (i + 1))"

definition indexOf :: "string \<Rightarrow> string \<Rightarrow> int" where
  "indexOf text w = indexOfFrom text w 0"

text \<open>\<^verbatim>\<open>s.trim()\<close>\<close>

definition trim :: "string \<Rightarrow> string" where
  "trim s = rev (dropWhile isSpace (rev (dropWhile isSpace s)))"

text \<open>\<^verbatim>\<open>s.replace('_', ' ')\<close> with a string pattern replaces the first occurrence only.\<close>

primrec replaceFirst :: "char \<Rightarrow> char \<Rightarrow> string \<Rightarrow> string" where
  "replaceFirst a b [] = []"
| "replaceFirst a b (x # xs) = (if x = a then b # xs else x # replaceFirst a b xs)"

text \<open>\<^verbatim>\<open>[...new Set(xs)]\<close>: the first occurrence of every element, in order.\<close>

definition setAdd :: "'a \<Rightarrow> 'a list \<Rightarrow> 'a list" where
  "setAdd x acc = (if x \<in> set acc then acc else acc @ [x])"

definition dedupe :: "'a list \<Rightarrow> 'a list" where
  "dedupe xs = fold setAdd xs []"

section \<open>Regular expressions\<close>

text \<open>
  The regular expressions of the validator use single characters and character classes
  under the quantifiers \<^verbatim>\<open>?\<close>, \<^verbatim>\<open>*\<close>, \<^verbatim>\<open>+\<close>, \<^verbatim>\<open>{n}\<close>, the word boundary \<^verbatim>\<open>\b\<close> and one
  top-level alternation, all under the flags \<^verbatim>\<open>gi\<close>. A pattern is a list of alternatives,
  each a list of atoms; matching is the backtracking search of the language: greedy
  quantifiers, leftmost alternative first.
\<close>

datatype cclass =
    Lit char
  | Digit
  | Space
  | WordCh
  | AnyChar
  | Letter
  | OneOf string

datatype atom =
    One cclass
  | Opt cclass
  | Star cclass
  | Plus cclass
  | Rep nat cclass
  | Boundary

type_synonym regex = "atom list list"

fun cmatch :: "cclass \<Rightarrow> char \<Rightarrow> bool" where
  "cmatch (Lit a) c = (canonicalize c = canonicalize a)"
| "cmatch Digit c = isDigit c"
| "cmatch Space c = isSpace c"
| "cmatch WordCh c = isWordChar c"
| "cmatch AnyChar c = (\<not> isLineTerminator c)"
| "cmatch Letter c = (isUpperAscii c \<or> isLowerAscii c)"
| "cmatch (OneOf cs) c = (c \<in> set cs)"

definition lit :: "string \<Rightarrow> atom list" where
  "lit s = map (\<lambda>c. One (Lit c)) s"

definition isWordOpt :: "char option \<Rightarrow> bool" where
  "isWordOpt p = (case p of None \<Rightarrow> False | Some c \<Rightarrow> isWordChar c)"

definition nextChar :: "string \<Rightarrow> char option" where
  "nextChar s = (case s of [] \<Rightarrow> None | x # xs \<Rightarrow> Some x)"

text \<open>\<open>rmatch as prev s\<close> matches the atoms at the head of \<open>s\<close>, where \<open>prev\<close> is the
  character before it, and returns what is left of \<open>s\<close> after the match.\<close>

fun rmatch :: "atom list \<Rightarrow> char option \<Rightarrow> string \<Rightarrow> string option" where
  "rmatch [] prev s = Some s"
| "rmatch (One c # r) prev [] = None"
| "rmatch (One c # r) prev (x # xs) = (if cmatch c x then rmatch r (Some x) xs else None)"
| "rmatch (Opt c # r) prev [] = rmatch r prev []"
| "rmatch (Opt c # r) prev (x # xs) =
     (if cmatch c x
      then (case rmatch r (Some x) xs of Some t \<Rightarrow> Some t | None \<Rightarrow> rmatch r prev (x # xs))
      else rmatch r prev (x # xs))"
| "rmatch (Star c # r) prev [] = rmatch r prev []"
| "rmatch (Star c # r) prev (x # xs) =
     (if cmatch c x
      then (case rmatch (Star c # r) (Some x) xs of Some t \<Rightarrow> Some t
            | None \<Rightarrow> rmatch r prev (x # xs))
      else rmatch r prev (x # xs))"
| "rmatch (Plus c # r) prev [] = None"
| "rmatch (Plus c # r) prev (x # xs) =
     (if cmatch c x then rmatch (Star c # r) (Some x) xs else None)"
| "rmatch (Rep 0 c # r) prev s = rmatch r prev s"
| "rmatch (Rep (Suc n) c # r) prev [] = None"
| "rmatch (Rep (Suc n) c # r) prev (x # xs) =
     (if cmatch c x then rmatch (Rep n c # r) (Some x) xs else None)"
| "rmatch (Boundary # r) prev s =
     (if isWordOpt prev \<noteq> isWordOpt (nextChar s) then rmatch r prev s else None)"

fun rmatchAlt :: "regex \<Rightarrow> char option \<Rightarrow> string \<Rightarrow> string option" where
  "rmatchAlt [] prev s = None"
| "rmatchAlt (a # as) prev s =
     (case rmatch a prev s of Some t \<Rightarrow> Some t | None \<Rightarrow> rmatchAlt as prev s)"

text \<open>The search for the leftmost match in \<open>s\<close>, whose head has index \<open>i\<close>: the start and
  the end index of the match.\<close>

fun rsearch :: "regex \<Rightarrow> char option \<Rightarrow> string \<Rightarrow> nat \<Rightarrow> (nat \<times> nat) option" where
  "rsearch re prev [] i =
     (case rmatchAlt re prev [] of Some t \<Rightarrow> Some (i, i) | None \<Rightarrow> None)"
| "rsearch re prev (x # xs) i =
     (case rmatchAlt re prev (x # xs) of
        Some t \<Rightarrow> Some (i, i + (length (x # xs) - length t))
      | None \<Rightarrow> rsearch re (Some x) xs (Suc i))"

definition charBefore :: "string \<Rightarrow> nat \<Rightarrow> char option" where
  "charBefore S l = (if l = 0 then None else Some (S ! (l - 1)))"

text \<open>\<^verbatim>\<open>RegExpBuiltinExec\<close> of a global regular expression whose \<^verbatim>\<open>lastIndex\<close> is \<open>l\<close>:
  the search starts at \<open>l\<close> and fails when \<open>l\<close> is beyond the end of the string.\<close>

definition regexExec :: "regex \<Rightarrow> string \<Rightarrow> nat \<Rightarrow> (nat \<times> nat) option" where
  "regexExec re S l =
     (if l > length S then None else rsearch re (charBefore S l) (drop l S) l)"

definition substring :: "string \<Rightarrow> nat \<Rightarrow> nat \<Rightarrow> string" where
  "substring S i e = take (e - i) (drop i S)"

text \<open>\<^verbatim>\<open>pattern.test(s)\<close> on a regular expression literal evaluated for this call: its
  \<^verbatim>\<open>lastIndex\<close> is 0.\<close>

definition regexTest :: "regex \<Rightarrow> string \<Rightarrow> bool" where
  "regexTest re S = (regexExec re S 0 \<noteq> None)"

text \<open>\<^verbatim>\<open>pattern.test(s)\<close> on a shared global regular expression: the search starts at its
  \<^verbatim>\<open>lastIndex\<close>, which becomes the end of the match, or 0 when there is none.\<close>

definition regexTestG :: "regex \<Rightarrow> nat \<Rightarrow> string \<Rightarrow> bool \<times> nat" where
  "regexTestG re l S =
     (case regexExec re S l of None \<Rightarrow> (False, 0) | Some (i, e) \<Rightarrow> (True, e))"

lemma rsearch_bounds: "rsearch re prev s i = Some (a, e) \<Longrightarrow> i \<le> a \<and> a \<le> e"
proof (induction s arbitrary: prev i)
  case Nil
  then show ?case by (auto split: option.splits)
next
  case (Cons x xs)
  show ?case
  proof (cases "rmatchAlt re prev (x # xs)")
    case None
    with Cons.prems have "rsearch re (Some x) xs (Suc i) = Some (a, e)" by simp
    from Cons.IH [OF this] show ?thesis by simp
  next
    case (Some t)
    with Cons.prems show ?thesis by auto
  qed
qed

lemma regexExec_bounds:
  "regexExec re S l = Some (a, e) \<Longrightarrow> l \<le> a \<and> a \<le> e \<and> l \<le> length S"
  unfolding regexExec_def
  by (cases "l > length S") (auto dest: rsearch_bounds)

text \<open>\<^verbatim>\<open>s.matchAll(pattern)\<close> for a global pattern whose \<^verbatim>\<open>lastIndex\<close> is \<open>l\<close>: the iterator
  works on a copy of the pattern that starts at \<open>l\<close>, and steps over an empty match. The
  pattern itself is left as it was.\<close>

function matchAllFrom :: "regex \<Rightarrow> string \<Rightarrow> nat \<Rightarrow> string list" where
  "matchAllFrom re S l =
     (case regexExec re S l of
        None \<Rightarrow> []
      | Some (i, e) \<Rightarrow> substring S i e # matchAllFrom re S (if e = i then Suc e else e))"
  by pat_completeness auto
termination
proof (relation "measure (\<lambda>(re, S, l). Suc (length S) - l)")
  show "wf (measure (\<lambda>(re, S, l). Suc (length S) - l))" by simp
next
  fix re :: regex and S :: string and l :: nat and x2 :: "nat \<times> nat" and i e :: nat
  assume ex: "regexExec re S l = Some x2" and x2: "(i, e) = x2"
  from ex x2 have "regexExec re S l = Some (i, e)" by simp
  from regexExec_bounds [OF this] have "l \<le> i" "i \<le> e" "l \<le> length S" by simp_all
  then show "((re, S, if e = i then Suc e else e), re, S, l)
      \<in> measure (\<lambda>(re, S, l). Suc (length S) - l)"
    by auto
qed

declare matchAllFrom.simps [simp del]

text \<open>\<^verbatim>\<open>s.split(/[...]+/)\<close> for a pattern that is one or more characters of a class: the
  pieces between the maximal runs of such characters, the empty pieces at both ends
  included.\<close>

function splitRuns :: "(char \<Rightarrow> bool) \<Rightarrow> string \<Rightarrow> string list" where
  "splitRuns P s =
     (let piece = takeWhile (\<lambda>c. \<not> P c) s; rest = dropWhile (\<lambda>c. \<not> P c) s
      in if rest = [] then [piece] else piece # splitRuns P (dropWhile P rest))"
  by pat_completeness auto
termination
proof (relation "measure (\<lambda>(P, s). length s)")
  show "wf (measure (\<lambda>(P, s). length s))" by simp
next
  fix P :: "char \<Rightarrow> bool" and s piece rest :: string
  assume rest: "rest = dropWhile (\<lambda>c. \<not> P c) s" and ne: "rest \<noteq> []"
  from ne obtain y ys where r: "rest = y # ys" by (cases rest) auto
  with rest have "dropWhile (\<lambda>c. \<not> P c) s = y # ys" by simp
  then have "P y" by (simp add: dropWhile_eq_Cons_conv)
  then have "length (dropWhile P rest) \<le> length ys"
    using r length_dropWhile_le [of P ys] by simp
  moreover have "length rest \<le> length s"
    using rest length_dropWhile_le [of "\<lambda>c. \<not> P c" s] by simp
  ultimately show "((P, dropWhile P rest), P, s) \<in> measure (\<lambda>(P, s). length s)"
    using r by simp
qed

declare splitRuns.simps [simp del]

section \<open>Data model\<close>

datatype IssueType =
    TOPIC_IRRELEVANT
  | MISSING_SOURCE
  | HALLUCINATION
  | INCONSISTENCY
  | INCOMPLETE
  | UNSAFE_CONTENT
  | LOW_QUALITY

datatype Severity = LOW | MEDIUM | HIGH | CRITICAL

datatype LegalSourceType = UU | PERPPU | PERPRES | PERATURAN | PUTUSAN | KUHP | KUHPERDATA | UUD

text \<open>The optional fields \<^verbatim>\<open>number\<close>, \<^verbatim>\<open>year\<close> and \<^verbatim>\<open>article\<close> of a \<^verbatim>\<open>LegalSource\<close> are never
  set by the validator.\<close>

record LegalSource =
  type :: LegalSourceType
  fullCitation :: string

record ValidationIssue =
  type :: IssueType
  severity :: Severity
  message :: string
  suggestion :: "string option"

record ValidationResult =
  isValid :: bool
  validatedText :: string
  confidence :: rat
  issues :: "ValidationIssue list"
  sources :: "string list"
  suggestions :: "string list option"

text \<open>What every check returns.\<close>

record CheckOutcome =
  score :: rat
  maxScore :: rat
  issues :: "ValidationIssue list"
  sources :: "string list"

text \<open>A thrown value, and a settled promise: rejected with an error or resolved with a
  value.\<close>

datatype error = Error string

type_synonym 'a promise = "error + 'a"

section \<open>Knowledge base, keywords and citation patterns\<close>

text \<open>The entries of \<^verbatim>\<open>INDONESIAN_LAW_KB\<close> that the validator reads, in the order of
  \<^verbatim>\<open>Object.entries\<close>.\<close>

definition constitutionalLaw :: "(string \<times> string) list" where
  "constitutionalLaw =
    [(''UUD 1945 Pasal 1'', ''Negara Indonesia ialah Negara Kesatuan, yang berbentuk Republik''),
     (''UUD 1945 Pasal 27'',
      ''Segala warga negara bersamaan kedudukannya di dalam hukum dan pemerintahan''),
     (''UUD 1945 Pasal 28'',
      ''Kemerdekaan berserikat dan berkumpul, mengeluarkan pikiran dengan lisan dan tulisan''),
     (''UUD 1945 Pasal 28A'',
      ''Setiap orang berhak untuk hidup serta berhak mempertahankan hidup dan kehidupannya''),
     (''UUD 1945 Pasal 28D'',
      ''Setiap orang berhak atas pengakuan, jaminan, perlindungan, dan kepastian hukum''),
     (''UUD 1945 Pasal 28H'',
      ''Setiap orang berhak hidup sejahtera lahir dan batin, bertempat tinggal'')]"

definition criminalLaw :: "(string \<times> string) list" where
  "criminalLaw =
    [(''KUHP Pasal 362'', ''Pencurian diancam dengan pidana penjara paling lama lima tahun''),
     (''KUHP Pasal 338'',
      ''Pembunuhan diancam dengan pidana penjara paling lama lima belas tahun''),
     (''KUHP Pasal 351'',
      ''Penganiayaan diancam dengan pidana penjara paling lama dua tahun delapan bulan''),
     (''KUHP Pasal 372'', ''Penggelapan diancam dengan pidana penjara paling lama empat tahun''),
     (''KUHP Pasal 378'', ''Penipuan diancam dengan pidana penjara paling lama empat tahun'')]"

definition civilLaw :: "(string \<times> string) list" where
  "civilLaw =
    [(''KUHPerdata Pasal 1320'',
      ''Syarat sahnya perjanjian: sepakat, cakap, hal tertentu, sebab halal''),
     (''KUHPerdata Pasal 1365'',
      ''Perbuatan melawan hukum yang menimbulkan kerugian wajib mengganti''),
     (''KUHPerdata Pasal 1131'',
      ''Segala kebendaan si berutang menjadi tanggungan untuk segala perikatan''),
     (''KUHPerdata Pasal 584'',
      ''Hak milik adalah hak untuk menikmati kegunaan suatu kebendaan'')]"

definition commonMisconceptions :: "(string \<times> string) list" where
  "commonMisconceptions =
    [(''pidana_mati_dihapus'',
      ''SALAH: Pidana mati masih berlaku di Indonesia berdasarkan KUHP''),
     (''poligami_bebas'',
      ''SALAH: Poligami harus mendapat izin pengadilan dengan syarat ketat''),
     (''hukum_adat_tidak_berlaku'',
      ''SALAH: Hukum adat diakui sepanjang tidak bertentangan dengan UU'')]"

definition LEGAL_KEYWORDS_positive :: "string list" where
  "LEGAL_KEYWORDS_positive =
    [''undang-undang'', ''uu'', ''perppu'', ''perpres'', ''peraturan'', ''pasal'', ''ayat'',
     ''kuhp'', ''kuhperdata'', ''kuhap'', ''kuhd'', ''uud'', ''konstitusi'',
     ''hukum'', ''pidana'', ''perdata'', ''administrasi'', ''tata usaha negara'',
     ''mahkamah'', ''pengadilan'', ''hakim'', ''jaksa'', ''advokat'', ''pengacara'',
     ''gugatan'', ''tuntutan'', ''dakwaan'', ''putusan'', ''vonis'', ''eksekusi'',
     ''pelanggaran'', ''kejahatan'', ''tindak pidana'', ''delik'', ''perbuatan melawan hukum'',
     ''perjanjian'', ''kontrak'', ''wanprestasi'', ''ganti rugi'', ''denda'',
     ''hak asasi'', ''ham'', ''kebebasan'', ''demokrasi'', ''rule of law'']"

definition LEGAL_KEYWORDS_negative :: "string list" where
  "LEGAL_KEYWORDS_negative =
    [''resep'', ''masakan'', ''olahraga'', ''musik'', ''film'', ''game'', ''teknologi'',
     ''programming'', ''coding'', ''matematika'', ''fisika'', ''kimia'', ''biologi'',
     ''agama'', ''fikih'', ''hadits'', ''tafsir'', ''ibadah'', ''shalat'', ''puasa'',
     ''ekonomi'', ''bisnis'', ''investasi'', ''saham'', ''cryptocurrency'',
     ''politik'', ''partai'', ''pemilu'', ''kampanye'', ''ideologi'']"

text \<open>\<^verbatim>\<open>No\.?\s*(\d+)\<close>, shared by six of the citation patterns.\<close>

definition numberPrefix :: "atom list" where
  "numberPrefix = lit ''No'' @ [Opt (Lit CHR ''.''), Star Space, Plus Digit]"

text \<open>\<^verbatim>\<open>\s+Tahun\s+(\d{4})\<close>\<close>

definition yearSuffix :: "atom list" where
  "yearSuffix = [Plus Space] @ lit ''Tahun'' @ [Plus Space, Rep 4 Digit]"

text \<open>\<^verbatim>\<open>\s+Pasal\s+(\d+)\<close>\<close>

definition articleSuffix :: "atom list" where
  "articleSuffix = [Plus Space] @ lit ''Pasal'' @ [Plus Space, Plus Digit]"

definition CITATION_PATTERNS :: "regex list" where
  "CITATION_PATTERNS =
    [[lit ''UU'' @ [Plus Space] @ numberPrefix @ yearSuffix],
     [lit ''Undang-Undang'' @ [Plus Space] @ lit ''Nomor'' @ [Plus Space, Plus Digit]
        @ yearSuffix],
     [lit ''Perppu'' @ [Plus Space] @ numberPrefix @ [One (Lit CHR ''/''), Rep 4 Digit]],
     [lit ''Perpres'' @ [Plus Space] @ numberPrefix @ yearSuffix],
     [lit ''KUHP'' @ articleSuffix],
     [lit ''KUHPerdata'' @ articleSuffix],
     [lit ''KUHAP'' @ articleSuffix],
     [lit ''UUD'' @ [Plus Space] @ lit ''1945'' @ articleSuffix @ [Opt Letter]],
     [lit ''Putusan'' @ [Plus Space] @ lit ''MK'' @ [Plus Space] @ numberPrefix
        @ [One (Lit CHR ''/''), Plus Letter, One (Lit CHR ''-''), Plus Letter,
           One (Lit CHR ''/''), Rep 4 Digit]],
     [lit ''Putusan'' @ [Plus Space] @ lit ''MA'' @ [Plus Space] @ numberPrefix
        @ [Star Space, One (Lit CHR ''K''), One (Lit CHR ''/''), Plus Letter,
           One (Lit CHR ''/''), Rep 4 Digit]]]"

text \<open>
  \<^verbatim>\<open>CITATION_PATTERNS\<close> is a module-level array of regular expression objects with the
  flag \<^verbatim>\<open>g\<close>, so each of them carries a \<^verbatim>\<open>lastIndex\<close> that outlives a call. The state of
  the module is the list of these ten numbers; all are 0 when the module is loaded.
\<close>

type_synonym lastIndexes = "nat list"

definition initialState :: lastIndexes where
  "initialState = replicate 10 0"

section \<open>The seven checks\<close>

subsection \<open>Topic relevance\<close>

definition validateTopicRelevance :: "string \<Rightarrow> string \<Rightarrow> CheckOutcome" where
  "validateTopicRelevance query response =
     (let text = toLowerCase (query @ '' '' @ response);
          positiveMatches =
            length (filter (\<lambda>keyword. includesStr text (toLowerCase keyword))
              LEGAL_KEYWORDS_positive);
          negativeMatches =
            length (filter (\<lambda>keyword. includesStr text (toLowerCase keyword))
              LEGAL_KEYWORDS_negative);
          relevanceScore = int positiveMatches - int negativeMatches * 2;
          score = max 0 (min 10 relevanceScore);
          issues =
            (if score < 3 then
               [\<lparr>type = TOPIC_IRRELEVANT, severity = CRITICAL,
                 message = ''Query appears to be outside Indonesian law topics'',
                 suggestion =
                   Some ''Please ask about Indonesian laws, regulations, or legal procedures''\<rparr>]
             else if negativeMatches > 0 then
               [\<lparr>type = TOPIC_IRRELEVANT, severity = MEDIUM,
                 message = ''Response contains some non-legal content'',
                 suggestion =
                   Some ''Focus the response strictly on Indonesian legal matters''\<rparr>]
             else [])
      in \<lparr>score = of_int score, maxScore = 10, issues = issues, sources = []\<rparr>)"

subsection \<open>Source citations\<close>

definition determineCitationType :: "string \<Rightarrow> LegalSourceType" where
  "determineCitationType citation =
     (if includesStr citation ''UU'' \<or> includesStr citation ''Undang-Undang'' then UU
      else if includesStr citation ''Perppu'' then PERPPU
      else if includesStr citation ''Perpres'' then PERPRES
      else if includesStr citation ''KUHP'' then KUHP
      else if includesStr citation ''KUHPerdata'' then KUHPERDATA
      else if includesStr citation ''UUD'' then UUD
      else if includesStr citation ''Putusan'' then PUTUSAN
      else PERATURAN)"

text \<open>The first loop of \<^verbatim>\<open>validateSourceCitations\<close>: for every pattern in turn, all its
  matches in the response, found from the pattern's current \<^verbatim>\<open>lastIndex\<close>.\<close>

definition findCitations :: "lastIndexes \<Rightarrow> string \<Rightarrow> string list" where
  "findCitations st response =
     concat (map (\<lambda>(pattern, l). matchAllFrom pattern response l) (zip CITATION_PATTERNS st))"

text \<open>\<^verbatim>\<open>patterns.some(pattern => pattern.test(citation))\<close>: every pattern tested changes its
  \<^verbatim>\<open>lastIndex\<close>; the patterns after the first success are not tested.\<close>

fun someTest :: "regex list \<Rightarrow> lastIndexes \<Rightarrow> string \<Rightarrow> bool \<times> lastIndexes" where
  "someTest (pattern # ps) (l # ls) citation =
     (case regexTestG pattern l citation of
        (True, l') \<Rightarrow> (True, l' # ls)
      | (False, l') \<Rightarrow> (case someTest ps ls citation of (b, ls') \<Rightarrow> (b, l' # ls')))"
| "someTest ps ls citation = (False, ls)"

definition isValidCitationFormat :: "lastIndexes \<Rightarrow> string \<Rightarrow> bool \<times> lastIndexes" where
  "isValidCitationFormat st citation = someTest CITATION_PATTERNS st citation"

definition malformedCitation :: "string \<Rightarrow> ValidationIssue" where
  "malformedCitation citation =
     \<lparr>type = MISSING_SOURCE, severity = LOW,
      message = ''Citation format may be incorrect: '' @ citation,
      suggestion = Some ''Use standard Indonesian legal citation format''\<rparr>"

text \<open>The second loop: the format of every citation found is validated again.\<close>

fun validateFormats ::
  "lastIndexes \<Rightarrow> LegalSource list \<Rightarrow> ValidationIssue list \<Rightarrow> ValidationIssue list \<times> lastIndexes"
where
  "validateFormats st [] acc = (acc, st)"
| "validateFormats st (citation # cs) acc =
     (case isValidCitationFormat st (fullCitation citation) of
        (ok, st') \<Rightarrow>
          validateFormats st' cs
            (if ok then acc else acc @ [malformedCitation (fullCitation citation)]))"

definition noCitations :: ValidationIssue where
  "noCitations =
     \<lparr>type = MISSING_SOURCE, severity = CRITICAL,
      message = ''No legal source citations found in response'',
      suggestion = Some (''Include specific references to Indonesian laws (UU, KUHP, etc.) ''
        @ ''with article numbers'')\<rparr>"

definition validateSourceCitations :: "lastIndexes \<Rightarrow> string \<Rightarrow> CheckOutcome \<times> lastIndexes" where
  "validateSourceCitations st response =
     (let sources = findCitations st response;
          foundCitations =
            map (\<lambda>m. \<lparr>LegalSource.type = determineCitationType m, fullCitation = m\<rparr>) sources;
          citationCount = length foundCitations;
          responseLength = length response;
          expectedCitations = max 1 (responseLength div 200);
          score = min 10 (of_nat citationCount / of_nat expectedCitations * 10);
          (score, issues) =
            (if citationCount = 0 then (0, [noCitations])
             else if citationCount < expectedCitations then
               (score,
                [\<lparr>type = MISSING_SOURCE, severity = MEDIUM,
                  message = ''Insufficient source citations for response length'',
                  suggestion = Some ''Add more specific legal references to support claims''\<rparr>])
             else (score, []));
          (issues, st') = validateFormats st foundCitations issues
      in (\<lparr>score = score, maxScore = 10, issues = issues, sources = sources\<rparr>, st'))"

subsection \<open>Hallucinations\<close>

text \<open>The three loops of \<^verbatim>\<open>detectHallucinations\<close> update the score and the issues; each is
  a fold of its step over the table.\<close>

definition misconceptionStep ::
  "string \<Rightarrow> string \<times> string \<Rightarrow> rat \<times> ValidationIssue list \<Rightarrow> rat \<times> ValidationIssue list"
where
  "misconceptionStep response =
     (\<lambda>(misconception, truth) (score, issues).
      if includesStr (toLowerCase response) (replaceFirst CHR ''_'' CHR '' '' misconception)
      then (score - 3,
            issues @ [\<lparr>type = HALLUCINATION, severity = HIGH,
              message = ''Potential misconception detected: '' @ truth,
              suggestion = Some ''Verify this claim against current Indonesian law''\<rparr>])
      else (score, issues))"

definition knowledgeStep ::
  "(string \<Rightarrow> string \<Rightarrow> rat) \<Rightarrow> string \<Rightarrow> string \<times> string \<Rightarrow>
   rat \<times> ValidationIssue list \<Rightarrow> rat \<times> ValidationIssue list"
where
  "knowledgeStep sim response =
     (\<lambda>(key, val) (score, issues).
      if includesStr response key \<and> sim (toLowerCase response) (toLowerCase val) < 3 / 10
      then (score - 2,
            issues @ [\<lparr>type = HALLUCINATION, severity = MEDIUM,
              message = ''Content about '' @ key @ '' may not align with established law'',
              suggestion = Some ''Double-check this legal provision''\<rparr>])
      else (score, issues))"

definition absolutePatterns :: "regex list" where
  "absolutePatterns =
    [[lit ''selalu'' @ [Plus Space, Plus WordCh]],
     [lit ''tidak pernah'' @ [Plus Space, Plus WordCh]],
     [lit ''semua'' @ [Plus Space, Plus WordCh]],
     [lit ''tidak ada'' @ [Plus Space, Plus WordCh]]]"

definition absoluteStep ::
  "string \<Rightarrow> regex \<Rightarrow> rat \<times> ValidationIssue list \<Rightarrow> rat \<times> ValidationIssue list"
where
  "absoluteStep response pattern =
     (\<lambda>(score, issues).
      if regexTest pattern response
      then (score - 1,
            issues @ [\<lparr>type = HALLUCINATION, severity = LOW,
              message = ''Absolute statements should be avoided without clear legal basis'',
              suggestion =
                Some ''Use more qualified language or provide specific citations''\<rparr>])
      else (score, issues))"

text \<open>\<open>sim\<close> stands for \<^verbatim>\<open>stringSimilarity.compareTwoStrings\<close> of the package
  \<^verbatim>\<open>string-similarity\<close>.\<close>

definition detectHallucinations :: "(string \<Rightarrow> string \<Rightarrow> rat) \<Rightarrow> string \<Rightarrow> CheckOutcome" where
  "detectHallucinations sim response =
     (let acc = fold (misconceptionStep response) commonMisconceptions (10, []);
          knowledgeEntries = constitutionalLaw @ criminalLaw @ civilLaw;
          acc = fold (knowledgeStep sim response) knowledgeEntries acc;
          (score, issues) = fold (absoluteStep response) absolutePatterns acc;
          score = max 0 score
      in \<lparr>score = score, maxScore = 10, issues = issues, sources = []\<rparr>)"

subsection \<open>Logical consistency\<close>

definition contradictoryPairs :: "(string \<times> string) list" where
  "contradictoryPairs =
    [(''dilarang'', ''diperbolehkan''),
     (''wajib'', ''tidak wajib''),
     (''harus'', ''tidak harus''),
     (''boleh'', ''tidak boleh''),
     (''legal'', ''ilegal'')]"

text \<open>\<^verbatim>\<open>Infinity\<close> is \<open>\<infinity>\<close>.\<close>

definition findWordDistance :: "string \<Rightarrow> string \<Rightarrow> string \<Rightarrow> enat" where
  "findWordDistance text word1 word2 =
     (let index1 = indexOf text word1; index2 = indexOf text word2
      in if index1 = - 1 \<or> index2 = - 1 then \<infinity> else enat (nat \<bar>index1 - index2\<bar>))"

definition dq :: string where
  "dq = [CHR 0x22]"

definition contradiction :: "string \<Rightarrow> string \<Rightarrow> ValidationIssue" where
  "contradiction pos neg =
     \<lparr>type = INCONSISTENCY, severity = HIGH,
      message = ''Potential contradiction found between '' @ dq @ pos @ dq @ '' and ''
        @ dq @ neg @ dq,
      suggestion = Some ''Clarify the specific circumstances for each statement''\<rparr>"

definition contradictionStep ::
  "string \<Rightarrow> string \<times> string \<Rightarrow> rat \<times> ValidationIssue list \<Rightarrow> rat \<times> ValidationIssue list"
where
  "contradictionStep response =
     (\<lambda>(pos, neg) (score, issues).
      let hasPositive = includesStr (toLowerCase response) pos;
          hasNegative = includesStr (toLowerCase response) neg
      in if hasPositive \<and> hasNegative
            \<and> findWordDistance (toLowerCase response) pos neg < 50
         then (score - 3, issues @ [contradiction pos neg])
         else (score, issues))"

text \<open>The condition under which the loop over the pairs emits an issue and deducts 3.\<close>

definition closeTogether :: "string \<Rightarrow> string \<times> string \<Rightarrow> bool" where
  "closeTogether response =
     (\<lambda>(pos, neg).
        includesStr (toLowerCase response) pos \<and> includesStr (toLowerCase response) neg
        \<and> findWordDistance (toLowerCase response) pos neg < 50)"

text \<open>\<^verbatim>\<open>response.split(/[.!?]+/)\<close>\<close>

definition splitSentences :: "string \<Rightarrow> string list" where
  "splitSentences response = splitRuns (\<lambda>c. c \<in> set ''.!?'') response"

definition weakFlow :: ValidationIssue where
  "weakFlow =
     \<lparr>type = INCONSISTENCY, severity = LOW,
      message = ''Response may lack logical flow between statements'',
      suggestion = Some ''Ensure ideas are connected and build upon each other''\<rparr>"

definition checkLogicalConsistency :: "(string \<Rightarrow> string \<Rightarrow> rat) \<Rightarrow> string \<Rightarrow> CheckOutcome" where
  "checkLogicalConsistency sim response =
     (let sentences = filter (\<lambda>s. length (trim s) > 10) (splitSentences response);
          (score, issues) = fold (contradictionStep response) contradictoryPairs (10, []);
          flowScore =
            length (filter (\<lambda>(a, b). sim (toLowerCase a) (toLowerCase b) > 2 / 10)
              (zip sentences (tl sentences)));
          expectedFlow = length sentences - 1;
          (score, issues) =
            (if length sentences \<ge> 3 \<and> of_nat flowScore < (of_nat expectedFlow :: rat) * (3 / 10)
             then (score - 1, issues @ [weakFlow])
             else (score, issues));
          score = max 0 score
      in \<lparr>score = score, maxScore = 10, issues = issues, sources = []\<rparr>)"

subsection \<open>Completeness\<close>

text \<open>\<^verbatim>\<open>/\d+[\.\)]\s|\bpertama\b|\bkedua\b|\bketiga\b|\blangkah\b/gi\<close>\<close>

definition stepsPattern :: regex where
  "stepsPattern =
    [[Plus Digit, One (OneOf ''.)''), One Space],
     [Boundary] @ lit ''pertama'' @ [Boundary],
     [Boundary] @ lit ''kedua'' @ [Boundary],
     [Boundary] @ lit ''ketiga'' @ [Boundary],
     [Boundary] @ lit ''langkah'' @ [Boundary]]"

definition validateCompleteness :: "string \<Rightarrow> string \<Rightarrow> CheckOutcome" where
  "validateCompleteness query response =
     (let (score, issues) = (10, []);
          (score, issues) =
            (if (includesStr (toLowerCase query) ''cara''
                  \<or> includesStr (toLowerCase query) ''prosedur'')
                \<and> \<not> regexTest stepsPattern response
             then (score - 3,
                   issues @ [\<lparr>type = INCOMPLETE, severity = MEDIUM,
                     message = ''Procedural query should include step-by-step guidance'',
                     suggestion = Some ''Provide numbered steps or clear sequence of actions''\<rparr>])
             else (score, issues));
          (score, issues) =
            (if length query > 50 \<and> length response < 100
             then (score - 2,
                   issues @ [\<lparr>type = INCOMPLETE, severity = MEDIUM,
                     message = ''Response appears too brief for the complexity of the query'',
                     suggestion =
                       Some ''Provide more detailed explanation with relevant context''\<rparr>])
             else (score, issues));
          hasDefinition =
            (includesStr (toLowerCase response) ''adalah''
              \<or> includesStr (toLowerCase response) ''yaitu''
              \<or> includesStr (toLowerCase response) ''merupakan'');
          (score, issues) =
            (if (includesStr (toLowerCase query) ''apa itu''
                  \<or> includesStr (toLowerCase query) ''definisi'')
                \<and> \<not> hasDefinition
             then (score - 1,
                   issues @ [\<lparr>type = INCOMPLETE, severity = LOW,
                     message = ''Definition query should include clear definition'',
                     suggestion = Some (''Provide explicit definition using '' @ dq @ ''adalah''
                       @ dq @ '' or '' @ dq @ ''yaitu'' @ dq)\<rparr>])
             else (score, issues));
          score = max 0 score
      in \<lparr>score = score, maxScore = 10, issues = issues, sources = []\<rparr>)"

subsection \<open>Unsafe content\<close>

definition unsafePatterns :: "regex list" where
  "unsafePatterns =
    [[lit ''cara'' @ [Star AnyChar] @ lit ''korupsi''],
     [lit ''cara'' @ [Star AnyChar] @ lit ''suap''],
     [lit ''cara'' @ [Star AnyChar] @ lit ''menghindar'' @ [Star AnyChar] @ lit ''hukum''],
     [lit ''cara'' @ [Star AnyChar] @ lit ''melanggar''],
     [lit ''tips'' @ [Star AnyChar] @ lit ''menghindari'' @ [Star AnyChar] @ lit ''sanksi'']]"

definition inappropriatePatterns :: "regex list" where
  "inappropriatePatterns =
    [[lit ''pasti'' @ [Star AnyChar] @ lit ''menang''],
     [lit ''dijamin'' @ [Star AnyChar] @ lit ''bebas''],
     [lit ''tidak akan'' @ [Star AnyChar] @ lit ''ketahuan'']]"

definition harmfulAdvice :: ValidationIssue where
  "harmfulAdvice =
     \<lparr>type = UNSAFE_CONTENT, severity = CRITICAL,
      message = ''Response contains potentially harmful legal advice'',
      suggestion = Some ''Focus on legal compliance and proper procedures instead''\<rparr>"

definition inappropriateAssurance :: ValidationIssue where
  "inappropriateAssurance =
     \<lparr>type = UNSAFE_CONTENT, severity = HIGH,
      message = ''Response provides inappropriate legal assurances'',
      suggestion = Some ''Avoid giving absolute guarantees about legal outcomes''\<rparr>"

definition unsafeStep ::
  "string \<Rightarrow> regex \<Rightarrow> rat \<times> ValidationIssue list \<Rightarrow> rat \<times> ValidationIssue list"
where
  "unsafeStep response pattern =
     (\<lambda>(score, issues).
      if regexTest pattern response then (0, issues @ [harmfulAdvice]) else (score, issues))"

definition inappropriateStep ::
  "string \<Rightarrow> regex \<Rightarrow> rat \<times> ValidationIssue list \<Rightarrow> rat \<times> ValidationIssue list"
where
  "inappropriateStep response pattern =
     (\<lambda>(score, issues).
      if regexTest pattern response then (score - 4, issues @ [inappropriateAssurance])
      else (score, issues))"

definition checkUnsafeContent :: "string \<Rightarrow> CheckOutcome" where
  "checkUnsafeContent response =
     (let acc = fold (unsafeStep response) unsafePatterns (10, []);
          (score, issues) = fold (inappropriateStep response) inappropriatePatterns acc;
          score = max 0 score
      in \<lparr>score = score, maxScore = 10, issues = issues, sources = []\<rparr>)"

subsection \<open>Quality\<close>

definition formalWords :: "string list" where
  "formalWords =
    [''berdasarkan'', ''sebagaimana'', ''dimaksud'', ''ketentuan'', ''peraturan'',
     ''undang-undang'', ''pasal'', ''ayat'', ''huruf'', ''angka'', ''jo'', ''juncto'']"

text \<open>\<^verbatim>\<open>text.toLowerCase().split(/\s+/)\<close> always has at least one element, so the
  quotient is defined.\<close>

definition assessFormalLanguage :: "string \<Rightarrow> rat" where
  "assessFormalLanguage text =
     (let words = splitRuns isSpace (toLowerCase text);
          formalCount =
            length (filter (\<lambda>word. list_ex (\<lambda>formal. includesStr word formal) formalWords) words)
      in min 10 (of_nat formalCount / of_nat (length words) * 100))"

text \<open>The pairs \<open>(sentences[i], sentences[j])\<close> with \<open>i < j\<close>, in the order of the two
  nested loops.\<close>

fun laterPairs :: "'a list \<Rightarrow> ('a \<times> 'a) list" where
  "laterPairs [] = []"
| "laterPairs (x # xs) = map (Pair x) xs @ laterPairs xs"

definition assessQuality :: "(string \<Rightarrow> string \<Rightarrow> rat) \<Rightarrow> string \<Rightarrow> CheckOutcome" where
  "assessQuality sim response =
     (let (score, issues) = (10, []);
          (score, issues) =
            (if length response < 50
             then (score - 3,
                   issues @ [\<lparr>type = LOW_QUALITY, severity = MEDIUM,
                     message = ''Response is too short to be informative'',
                     suggestion = Some ''Provide more detailed explanation''\<rparr>])
             else (score, issues));
          sentences = filter (\<lambda>s. length (trim s) > 5) (splitSentences response);
          repetitionCount =
            length (filter (\<lambda>(a, b). sim (toLowerCase a) (toLowerCase b) > 8 / 10)
              (laterPairs sentences));
          (score, issues) =
            (if repetitionCount > 1
             then (score - 2,
                   issues @ [\<lparr>type = LOW_QUALITY, severity = LOW,
                     message = ''Response contains repetitive content'',
                     suggestion = Some ''Vary the language and avoid redundancy''\<rparr>])
             else (score, issues));
          formalLanguageScore = assessFormalLanguage response;
          (score, issues) =
            (if formalLanguageScore < 5
             then (score - 1,
                   issues @ [\<lparr>type = LOW_QUALITY, severity = LOW,
                     message = ''Response should use more formal legal language'',
                     suggestion =
                       Some ''Use appropriate legal terminology and formal Indonesian''\<rparr>])
             else (score, issues));
          score = max 0 score
      in \<lparr>score = score, maxScore = 10, issues = issues, sources = []\<rparr>)"

section \<open>The orchestrator\<close>

text \<open>\<^verbatim>\<open>generateSuggestions\<close> collects into a \<^verbatim>\<open>Set\<close>, which keeps the order of insertion. A
  suggestion that is absent or empty is not added.\<close>

definition generateSuggestions :: "ValidationIssue list \<Rightarrow> string list" where
  "generateSuggestions found =
     (let suggestions =
            fold (\<lambda>issue acc. case suggestion issue of
                    None \<Rightarrow> acc
                  | Some s \<Rightarrow> if s = [] then acc else setAdd s acc) found [];
          issueTypes = map ValidationIssue.type found;
          suggestions =
            (if MISSING_SOURCE \<in> set issueTypes
             then setAdd ''Include specific references to Indonesian laws with article numbers''
                    suggestions
             else suggestions);
          suggestions =
            (if TOPIC_IRRELEVANT \<in> set issueTypes
             then setAdd ''Focus strictly on Indonesian legal topics and regulations''
                    suggestions
             else suggestions);
          suggestions =
            (if INCOMPLETE \<in> set issueTypes
             then setAdd ''Provide more comprehensive coverage of the legal topic'' suggestions
             else suggestions)
      in suggestions)"

text \<open>The body of the \<^verbatim>\<open>try\<close> block after the checks have returned.\<close>

definition aggregate :: "string \<Rightarrow> CheckOutcome list \<Rightarrow> ValidationResult" where
  "aggregate aiResponse checks =
     (let allIssues = concat (map issues checks);
          allSources = concat (map sources checks);
          totalScore = sum_list (map score checks);
          maxScore = sum_list (map maxScore checks);
          confidence = (if maxScore > 0 then totalScore / maxScore * 100 else 0);
          isValid =
            (confidence \<ge> 70 \<and> \<not> list_ex (\<lambda>issue. severity issue = CRITICAL) allIssues)
      in \<lparr>isValid = isValid,
          validatedText = aiResponse,
          confidence = confidence,
          ValidationResult.issues = allIssues,
          ValidationResult.sources = dedupe allSources,
          suggestions = (if \<not> isValid then Some (generateSuggestions allIssues) else None)\<rparr>)"

text \<open>What the \<^verbatim>\<open>catch\<close> block returns.\<close>

definition fallback :: "string \<Rightarrow> ValidationResult" where
  "fallback aiResponse =
     \<lparr>isValid = False,
      validatedText = aiResponse,
      confidence = 0,
      ValidationResult.issues =
        [\<lparr>type = LOW_QUALITY, severity = CRITICAL,
          message = ''Validation system error occurred'',
          suggestion = Some ''Please try again with a different query''\<rparr>],
      ValidationResult.sources = [],
      suggestions = None\<rparr>"

text \<open>\<^verbatim>\<open>await Promise.all(promises)\<close> on promises that are settled: the values in order, or
  the first rejection.\<close>

fun promiseAll :: "'a promise list \<Rightarrow> ('a list) promise" where
  "promiseAll [] = Inr []"
| "promiseAll (Inl e # ps) = Inl e"
| "promiseAll (Inr v # ps) = (case promiseAll ps of Inl e \<Rightarrow> Inl e | Inr vs \<Rightarrow> Inr (v # vs))"

text \<open>The \<^verbatim>\<open>try\<close> and \<^verbatim>\<open>catch\<close> of \<^verbatim>\<open>validateResponse\<close>, for the seven promises that the
  checks have returned.\<close>

definition orchestrate :: "string \<Rightarrow> CheckOutcome promise list \<Rightarrow> ValidationResult" where
  "orchestrate aiResponse promises =
     (case promiseAll promises of
        Inr checks \<Rightarrow> aggregate aiResponse checks
      | Inl e \<Rightarrow> fallback aiResponse)"

text \<open>The seven checks in the order of the call. Only \<^verbatim>\<open>validateSourceCitations\<close> reads and
  writes the state of the module.\<close>

definition runChecks ::
  "(string \<Rightarrow> string \<Rightarrow> rat) \<Rightarrow> lastIndexes \<Rightarrow> string \<Rightarrow> string \<Rightarrow> CheckOutcome list \<times> lastIndexes"
where
  "runChecks sim st userQuery aiResponse =
     (let (citations, st') = validateSourceCitations st aiResponse
      in ([validateTopicRelevance userQuery aiResponse,
           citations,
           detectHallucinations sim aiResponse,
           checkLogicalConsistency sim aiResponse,
           validateCompleteness userQuery aiResponse,
           checkUnsafeContent aiResponse,
           assessQuality sim aiResponse], st'))"

text \<open>
  \<^verbatim>\<open>validateResponse\<close>: the result and the new state of the module. The bodies of the seven
  checks throw nothing on strings, so each of their promises is resolved. The debug output
  and the clock, which is read for that output only, are left out.
\<close>

definition validateResponse ::
  "(string \<Rightarrow> string \<Rightarrow> rat) \<Rightarrow> lastIndexes \<Rightarrow> string \<Rightarrow> string \<Rightarrow> ValidationResult \<times> lastIndexes"
where
  "validateResponse sim st userQuery aiResponse =
     (let (checks, st') = runChecks sim st userQuery aiResponse
      in (orchestrate aiResponse (map Inr checks), st'))"

text \<open>
  An unexpected error inside a check rejects the promise of that check. \<open>settle thrown v\<close> is
  the promise of a check whose body computes \<open>v\<close>: rejected with \<open>e\<close> when \<open>thrown\<close> is
  \<open>Some e\<close>, resolved with \<open>v\<close> otherwise.
\<close>

definition settle :: "error option \<Rightarrow> 'a \<Rightarrow> 'a promise" where
  "settle thrown v = (case thrown of None \<Rightarrow> Inr v | Some e \<Rightarrow> Inl e)"

text \<open>\<^verbatim>\<open>aiResponse.length\<close>, which the debug output before the \<^verbatim>\<open>try\<close> block reads: it is
  defined for every string.\<close>

definition lengthOf :: "string \<Rightarrow> nat promise" where
  "lengthOf s = Inr (length s)"

text \<open>
  \<^verbatim>\<open>validateResponse\<close> with its failures: \<open>thrown i\<close> is the error that is thrown inside the
  check of index \<open>i\<close> in the order of the call, if any. The value is the promise that the
  \<^verbatim>\<open>async\<close> function returns. The statements before the \<^verbatim>\<open>try\<close> block, the reading of the
  clock and in debug mode the output of \<^verbatim>\<open>aiResponse.length\<close>, are outside the \<^verbatim>\<open>catch\<close>: an
  error there would reject the promise. All seven checks are called before
  \<^verbatim>\<open>Promise.all\<close> is awaited, and the \<^verbatim>\<open>try\<close> block and the \<^verbatim>\<open>catch\<close> block both return.
\<close>

definition validateResponseThrowing ::
  "bool \<Rightarrow> (nat \<Rightarrow> error option) \<Rightarrow> (string \<Rightarrow> string \<Rightarrow> rat) \<Rightarrow> lastIndexes \<Rightarrow> string \<Rightarrow> string
   \<Rightarrow> ValidationResult promise"
where
  "validateResponseThrowing debugMode thrown sim st userQuery aiResponse =
     (case (if debugMode then lengthOf aiResponse else Inr 0) of
        Inl e \<Rightarrow> Inl e
      | Inr n \<Rightarrow>
          (let checks = fst (runChecks sim st userQuery aiResponse);
               promises =
                 map (\<lambda>(i, check). settle (thrown i) check) (zip [0..<length checks] checks)
           in Inr (orchestrate aiResponse promises)))"

text \<open>
  \<^verbatim>\<open>compareTwoStrings\<close> belongs to the package \<^verbatim>\<open>string-similarity\<close>, not to the repository,
  and every theorem below holds for any function in its place. For the evaluations at
  concrete inputs it is the Dice coefficient of the package: both strings without
  their white space, twice the number of shared bigrams over the number of all bigrams.
\<close>

fun bigrams :: "string \<Rightarrow> (char \<times> char) list" where
  "bigrams (a # b # s) = (a, b) # bigrams (b # s)"
| "bigrams s = []"

fun intersectionSize :: "(char \<times> char) list \<Rightarrow> (char \<times> char) list \<Rightarrow> nat" where
  "intersectionSize firstBigrams [] = 0"
| "intersectionSize firstBigrams (b # bs) =
     (if b \<in> set firstBigrams then Suc (intersectionSize (remove1 b firstBigrams) bs)
      else intersectionSize firstBigrams bs)"

definition compareTwoStrings :: "string \<Rightarrow> string \<Rightarrow> rat" where
  "compareTwoStrings a b =
     (let first = filter (\<lambda>c. \<not> isSpace c) a; second = filter (\<lambda>c. \<not> isSpace c) b
      in if first = second then 1
         else if length first < 2 \<or> length second < 2 then 0
         else 2 * of_nat (intersectionSize (bigrams first) (bigrams second))
                / of_nat (length first + length second - 2))"

section \<open>Scores of the checks\<close>

lemma fold_fst_le:
  fixes f :: "'a \<Rightarrow> rat \<times> 'b \<Rightarrow> rat \<times> 'b"
  assumes "\<And>x acc. fst (f x acc) \<le> fst acc"
  shows "fst (fold f xs acc) \<le> fst acc"
proof (induction xs arbitrary: acc)
  case Nil
  show ?case by simp
next
  case (Cons x xs)
  have "fst (fold f xs (f x acc)) \<le> fst (f x acc)" by (rule Cons.IH)
  also have "\<dots> \<le> fst acc" by (rule assms)
  finally show ?case by simp
qed

lemma misconceptionStep_le: "fst (misconceptionStep r e acc) \<le> fst acc"
  by (cases e; cases acc) (simp add: misconceptionStep_def)

lemma knowledgeStep_le: "fst (knowledgeStep sim r e acc) \<le> fst acc"
  by (cases e; cases acc) (simp add: knowledgeStep_def)

lemma absoluteStep_le: "fst (absoluteStep r p acc) \<le> fst acc"
  by (cases acc) (simp add: absoluteStep_def)

lemma contradictionStep_le: "fst (contradictionStep r e acc) \<le> fst acc"
  by (cases e; cases acc) (simp add: contradictionStep_def Let_def)

lemma unsafeStep_le: "fst acc \<le> 10 \<Longrightarrow> fst (unsafeStep r p acc) \<le> 10"
  by (cases acc) (simp add: unsafeStep_def)

lemma inappropriateStep_le: "fst (inappropriateStep r p acc) \<le> fst acc"
  by (cases acc) (simp add: inappropriateStep_def)

lemma score_validateTopicRelevance:
  "0 \<le> score (validateTopicRelevance q r) \<and> score (validateTopicRelevance q r) \<le> 10
   \<and> maxScore (validateTopicRelevance q r) = 10"
  by (simp add: validateTopicRelevance_def Let_def)

lemma score_validateSourceCitations:
  "0 \<le> score (fst (validateSourceCitations st r)) \<and> score (fst (validateSourceCitations st r)) \<le> 10
   \<and> maxScore (fst (validateSourceCitations st r)) = 10"
  by (simp add: validateSourceCitations_def Let_def split: prod.splits)

lemma score_detectHallucinations:
  "0 \<le> score (detectHallucinations sim r) \<and> score (detectHallucinations sim r) \<le> 10
   \<and> maxScore (detectHallucinations sim r) = 10"
proof -
  let ?a = "fold (misconceptionStep r) commonMisconceptions (10, [])"
  let ?b = "fold (knowledgeStep sim r) (constitutionalLaw @ criminalLaw @ civilLaw) ?a"
  let ?c = "fold (absoluteStep r) absolutePatterns ?b"
  have "fst ?c \<le> fst ?b" by (rule fold_fst_le) (rule absoluteStep_le)
  also have "\<dots> \<le> fst ?a" by (rule fold_fst_le) (rule knowledgeStep_le)
  also have "\<dots> \<le> fst (10 :: rat, [] :: ValidationIssue list)"
    by (rule fold_fst_le) (rule misconceptionStep_le)
  finally have "fst ?c \<le> 10" by simp
  then show ?thesis
    by (simp add: detectHallucinations_def Let_def split_def)
qed


lemma score_checkLogicalConsistency:
  "0 \<le> score (checkLogicalConsistency sim r) \<and> score (checkLogicalConsistency sim r) \<le> 10
   \<and> maxScore (checkLogicalConsistency sim r) = 10"
proof -
  let ?a = "fold (contradictionStep r) contradictoryPairs (10, [])"
  have "fst ?a \<le> fst (10 :: rat, [] :: ValidationIssue list)"
    by (rule fold_fst_le) (rule contradictionStep_le)
  then have "fst ?a \<le> 10" by simp
  then show ?thesis
    by (simp add: checkLogicalConsistency_def Let_def split_def)
qed

lemma score_validateCompleteness:
  "0 \<le> score (validateCompleteness q r) \<and> score (validateCompleteness q r) \<le> 10
   \<and> maxScore (validateCompleteness q r) = 10"
  by (simp add: validateCompleteness_def Let_def)

lemma fold_unsafeStep_le: "fst acc \<le> 10 \<Longrightarrow> fst (fold (unsafeStep r) ps acc) \<le> 10"
  by (induction ps arbitrary: acc) (simp_all add: unsafeStep_le)

lemma score_checkUnsafeContent:
  "0 \<le> score (checkUnsafeContent r) \<and> score (checkUnsafeContent r) \<le> 10
   \<and> maxScore (checkUnsafeContent r) = 10"
proof -
  let ?a = "fold (unsafeStep r) unsafePatterns (10, [])"
  let ?b = "fold (inappropriateStep r) inappropriatePatterns ?a"
  have "fst ?b \<le> fst ?a" by (rule fold_fst_le) (rule inappropriateStep_le)
  also have "\<dots> \<le> 10" by (rule fold_unsafeStep_le) simp
  finally have "fst ?b \<le> 10" .
  then show ?thesis
    by (simp add: checkUnsafeContent_def Let_def split_def)
qed

lemma score_assessQuality:
  "0 \<le> score (assessQuality sim r) \<and> score (assessQuality sim r) \<le> 10
   \<and> maxScore (assessQuality sim r) = 10"
  by (simp add: assessQuality_def Let_def)

lemma runChecks_bounds:
  "c \<in> set (fst (runChecks sim st q r)) \<Longrightarrow> 0 \<le> score c \<and> score c \<le> 10 \<and> maxScore c = 10"
  unfolding runChecks_def
  using score_validateTopicRelevance [of q r] score_validateSourceCitations [of st r]
    score_detectHallucinations [of sim r] score_checkLogicalConsistency [of sim r]
    score_validateCompleteness [of q r] score_checkUnsafeContent [of r]
    score_assessQuality [of sim r]
  by (auto simp: split_def Let_def)

lemma runChecks_length: "length (fst (runChecks sim st q r)) = 7"
  by (simp add: runChecks_def split_def Let_def)

lemma promiseAll_resolved: "promiseAll (map Inr cs) = Inr cs"
  by (induction cs) simp_all

lemma promiseAll_rejected: "Inl e \<in> set ps \<Longrightarrow> \<exists>e'. promiseAll ps = Inl e'"
proof (induction ps)
  case Nil
  then show ?case by simp
next
  case (Cons p ps)
  show ?case
  proof (cases p)
    case (Inl a)
    then show ?thesis by simp
  next
    case (Inr v)
    with Cons.prems have "Inl e \<in> set ps" by auto
    from Cons.IH [OF this] Inr show ?thesis by auto
  qed
qed

lemma validateResponse_aggregate:
  "fst (validateResponse sim st q r) = aggregate r (fst (runChecks sim st q r))"
  by (simp add: validateResponse_def orchestrate_def promiseAll_resolved split_def Let_def)

lemma sum_list_bounds:
  fixes f :: "'a \<Rightarrow> rat"
  assumes "\<And>x. x \<in> set xs \<Longrightarrow> 0 \<le> f x \<and> f x \<le> b"
  shows "0 \<le> sum_list (map f xs) \<and> sum_list (map f xs) \<le> of_nat (length xs) * b"
  using assms
proof (induction xs)
  case Nil
  show ?case by simp
next
  case (Cons x xs)
  then have "0 \<le> sum_list (map f xs) \<and> sum_list (map f xs) \<le> of_nat (length xs) * b"
    by simp
  moreover have "0 \<le> f x \<and> f x \<le> b" using Cons.prems by simp
  ultimately show ?case by (simp add: algebra_simps)
qed

lemma sum_list_const:
  fixes f :: "'a \<Rightarrow> rat"
  assumes "\<And>x. x \<in> set xs \<Longrightarrow> f x = b"
  shows "sum_list (map f xs) = of_nat (length xs) * b"
  using assms by (induction xs) (simp_all add: algebra_simps)

lemma runChecks_totals:
  "0 \<le> sum_list (map score (fst (runChecks sim st q r)))
   \<and> sum_list (map score (fst (runChecks sim st q r))) \<le> 70
   \<and> sum_list (map maxScore (fst (runChecks sim st q r))) = 70"
proof -
  let ?cs = "fst (runChecks sim st q r)"
  have "0 \<le> sum_list (map score ?cs) \<and> sum_list (map score ?cs) \<le> of_nat (length ?cs) * 10"
    by (rule sum_list_bounds) (simp add: runChecks_bounds)
  moreover have "sum_list (map maxScore ?cs) = of_nat (length ?cs) * 10"
    by (rule sum_list_const) (simp add: runChecks_bounds)
  ultimately show ?thesis by (simp add: runChecks_length)
qed

lemma aggregate_confidence:
  "confidence (aggregate r cs) =
     (if sum_list (map maxScore cs) > 0
      then sum_list (map score cs) / sum_list (map maxScore cs) * 100 else 0)"
  by (simp add: aggregate_def Let_def)

lemma aggregate_isValid:
  "isValid (aggregate r cs) =
     (confidence (aggregate r cs) \<ge> 70
      \<and> \<not> (\<exists>issue \<in> set (ValidationResult.issues (aggregate r cs)). severity issue = CRITICAL))"
  by (simp add: aggregate_def Let_def list_ex_iff)

lemma aggregate_issues:
  "ValidationResult.issues (aggregate r cs) = concat (map issues cs)"
  by (simp add: aggregate_def Let_def)

section \<open>Validity and confidence\<close>

text \<open>
  Claim C1. The result of \<^verbatim>\<open>validateResponse\<close> is valid exactly when its confidence is at least
  70 and none of its issues is \<open>CRITICAL\<close>; so a \<open>CRITICAL\<close> issue of any of the seven checks
  makes the result invalid, whatever the scores are.
\<close>

theorem C1_validity_rule:
  fixes sim st q r
  defines "res \<equiv> fst (validateResponse sim st q r)"
  defines "checks \<equiv> fst (runChecks sim st q r)"
  shows "(isValid res \<longleftrightarrow>
            confidence res \<ge> 70
            \<and> \<not> (\<exists>issue \<in> set (ValidationResult.issues res). severity issue = CRITICAL))
         \<and> ((\<exists>c \<in> set checks. \<exists>issue \<in> set (issues c). severity issue = CRITICAL)
              \<longrightarrow> \<not> isValid res)"
proof -
  have r: "res = aggregate r checks"
    by (simp add: res_def checks_def validateResponse_aggregate)
  have a: "isValid res \<longleftrightarrow>
      confidence res \<ge> 70
      \<and> \<not> (\<exists>issue \<in> set (ValidationResult.issues res). severity issue = CRITICAL)"
    unfolding r by (rule aggregate_isValid)
  have "ValidationResult.issues res = concat (map issues checks)"
    unfolding r by (rule aggregate_issues)
  then have "(\<exists>c \<in> set checks. \<exists>issue \<in> set (issues c). severity issue = CRITICAL)
      \<longrightarrow> (\<exists>issue \<in> set (ValidationResult.issues res). severity issue = CRITICAL)"
    by auto
  with a show ?thesis by blast
qed

theorem C1_validity_rule_witness:
  "(\<exists>c \<in> set (fst (runChecks compareTwoStrings initialState ''Test query'' ''KUHP Pasal 1'')).
      \<exists>issue \<in> set (issues c). severity issue = CRITICAL)
   \<and> \<not> isValid (fst (validateResponse compareTwoStrings initialState ''Test query''
         ''KUHP Pasal 1''))"
proof -
  have h: "\<exists>c \<in> set (fst (runChecks compareTwoStrings initialState ''Test query''
      ''KUHP Pasal 1'')). \<exists>issue \<in> set (issues c). severity issue = CRITICAL"
    by code_simp
  with C1_validity_rule [of compareTwoStrings initialState "''Test query''" "''KUHP Pasal 1''"]
  show ?thesis by blast
qed

text \<open>
  Claim C2. The confidence is 100 times the sum of the seven scores over the sum of the seven
  maximal scores, which is what clamping that quotient to the interval from 0 to 100 gives: it
  lies between 0 and 100, because every check returns a score between 0 and 10 against a
  maximal score of 10.
\<close>

theorem C2_confidence_range:
  fixes sim st q r
  defines "res \<equiv> fst (validateResponse sim st q r)"
  defines "checks \<equiv> fst (runChecks sim st q r)"
  shows "confidence res
           = max 0 (min 100 (100 * sum_list (map score checks) / sum_list (map maxScore checks)))
         \<and> 0 \<le> confidence res \<and> confidence res \<le> 100
         \<and> length checks = 7
         \<and> (\<forall>c \<in> set checks. 0 \<le> score c \<and> score c \<le> 10 \<and> maxScore c = 10)"
proof -
  have r: "res = aggregate r checks"
    by (simp add: res_def checks_def validateResponse_aggregate)
  have t: "0 \<le> sum_list (map score checks)" "sum_list (map score checks) \<le> 70"
    "sum_list (map maxScore checks) = 70"
    using runChecks_totals [of sim st q r] by (simp_all add: checks_def)
  have c: "confidence res = sum_list (map score checks) / 70 * 100"
    unfolding r by (simp add: aggregate_confidence t)
  have "confidence res
      = max 0 (min 100 (100 * sum_list (map score checks) / sum_list (map maxScore checks)))"
    using t by (simp add: c)
  moreover have "0 \<le> confidence res" "confidence res \<le> 100"
    using t by (simp_all add: c)
  moreover have "length checks = 7" by (simp add: checks_def runChecks_length)
  moreover have "\<forall>c \<in> set checks. 0 \<le> score c \<and> score c \<le> 10 \<and> maxScore c = 10"
    using runChecks_bounds [of _ sim st q r] by (auto simp: checks_def)
  ultimately show ?thesis by blast
qed

theorem C2_confidence_range_witness:
  "0 \<le> confidence (fst (validateResponse compareTwoStrings initialState ''Test query''
      ''KUHP Pasal 1''))
   \<and> confidence (fst (validateResponse compareTwoStrings initialState ''Test query''
      ''KUHP Pasal 1'')) \<le> 100
   \<and> length (fst (runChecks compareTwoStrings initialState ''Test query'' ''KUHP Pasal 1'')) = 7"
  using C2_confidence_range [of compareTwoStrings initialState "''Test query''" "''KUHP Pasal 1''"]
  by blast

lemma aggregate_sources:
  "ValidationResult.sources (aggregate r cs) = dedupe (concat (map sources cs))"
  by (simp add: aggregate_def Let_def)

lemma critical_veto:
  assumes "c \<in> set (fst (runChecks sim st q r))" "issue \<in> set (issues c)"
    "severity issue = CRITICAL"
  shows "\<not> isValid (fst (validateResponse sim st q r))"
proof -
  have "issue \<in> set (ValidationResult.issues (aggregate r (fst (runChecks sim st q r))))"
    using assms(1,2) by (auto simp: aggregate_issues)
  with assms(3) show ?thesis
    by (auto simp: validateResponse_aggregate aggregate_isValid)
qed

section \<open>Unsafe content\<close>

lemma unsafeStep_keep:
  "fst acc = 0 \<Longrightarrow> harmfulAdvice \<in> set (snd acc) \<Longrightarrow>
   fst (unsafeStep r p acc) = 0 \<and> harmfulAdvice \<in> set (snd (unsafeStep r p acc))"
  by (cases acc) (simp add: unsafeStep_def)

lemma fold_unsafeStep_keep:
  "fst acc = 0 \<Longrightarrow> harmfulAdvice \<in> set (snd acc) \<Longrightarrow>
   fst (fold (unsafeStep r) ps acc) = 0 \<and> harmfulAdvice \<in> set (snd (fold (unsafeStep r) ps acc))"
  by (induction ps arbitrary: acc) (simp_all add: unsafeStep_keep)

lemma unsafeStep_hit:
  "regexTest p r \<Longrightarrow>
   fst (unsafeStep r p acc) = 0 \<and> harmfulAdvice \<in> set (snd (unsafeStep r p acc))"
  by (cases acc) (simp add: unsafeStep_def)

lemma fold_unsafeStep_hit:
  "\<exists>p \<in> set ps. regexTest p r \<Longrightarrow>
   fst (fold (unsafeStep r) ps acc) = 0 \<and> harmfulAdvice \<in> set (snd (fold (unsafeStep r) ps acc))"
proof (induction ps arbitrary: acc)
  case Nil
  then show ?case by simp
next
  case (Cons p ps)
  show ?case
  proof (cases "regexTest p r")
    case True
    from unsafeStep_hit [OF this, of acc] show ?thesis
      by (simp add: fold_unsafeStep_keep)
  next
    case False
    with Cons.prems have "\<exists>p \<in> set ps. regexTest p r" by simp
    from Cons.IH [OF this] show ?thesis by simp
  qed
qed

lemma inappropriateStep_issues: "set (snd acc) \<subseteq> set (snd (inappropriateStep r p acc))"
  by (cases acc) (auto simp: inappropriateStep_def)

lemma fold_inappropriateStep_issues:
  "set (snd acc) \<subseteq> set (snd (fold (inappropriateStep r) ps acc))"
proof (induction ps arbitrary: acc)
  case Nil
  show ?case by simp
next
  case (Cons p ps)
  have "set (snd acc) \<subseteq> set (snd (inappropriateStep r p acc))"
    by (rule inappropriateStep_issues)
  also have "\<dots> \<subseteq> set (snd (fold (inappropriateStep r) ps (inappropriateStep r p acc)))"
    by (rule Cons.IH)
  finally show ?case by simp
qed

lemma checkUnsafeContent_hit:
  assumes "\<exists>p \<in> set unsafePatterns. regexTest p r"
  shows "score (checkUnsafeContent r) = 0 \<and> harmfulAdvice \<in> set (issues (checkUnsafeContent r))"
proof -
  let ?a = "fold (unsafeStep r) unsafePatterns (10, [])"
  let ?b = "fold (inappropriateStep r) inappropriatePatterns ?a"
  from fold_unsafeStep_hit [OF assms] have a: "fst ?a = 0" "harmfulAdvice \<in> set (snd ?a)"
    by simp_all
  have "fst ?b \<le> fst ?a" by (rule fold_fst_le) (rule inappropriateStep_le)
  with a have "fst ?b \<le> 0" by simp
  moreover have "harmfulAdvice \<in> set (snd ?b)"
    using a(2) fold_inappropriateStep_issues [of ?a r inappropriatePatterns] by blast
  ultimately show ?thesis
    by (simp add: checkUnsafeContent_def Let_def split_def)
qed

lemma runChecks_unsafe: "fst (runChecks sim st q r) ! 5 = checkUnsafeContent r"
  by (simp add: runChecks_def Let_def split_def)

text \<open>
  Claim C3. When one of the unsafe patterns matches the response, the unsafe-content check
  scores exactly 0, also when patterns of inappropriate assurance match as well, and it emits
  a \<open>CRITICAL\<close> issue of type \<open>UNSAFE_CONTENT\<close>; the result of the validation is then invalid.
\<close>

theorem C3_unsafe_content:
  assumes "\<exists>p \<in> set unsafePatterns. regexTest p r"
  shows "score (checkUnsafeContent r) = 0
         \<and> fst (runChecks sim st q r) ! 5 = checkUnsafeContent r
         \<and> harmfulAdvice \<in> set (issues (checkUnsafeContent r))
         \<and> ValidationIssue.type harmfulAdvice = UNSAFE_CONTENT
         \<and> severity harmfulAdvice = CRITICAL
         \<and> harmfulAdvice \<in> set (ValidationResult.issues (fst (validateResponse sim st q r)))
         \<and> \<not> isValid (fst (validateResponse sim st q r))"
proof -
  from checkUnsafeContent_hit [OF assms]
  have s: "score (checkUnsafeContent r) = 0"
    and i: "harmfulAdvice \<in> set (issues (checkUnsafeContent r))" by simp_all
  have m: "checkUnsafeContent r \<in> set (fst (runChecks sim st q r))"
    by (simp add: runChecks_def Let_def split_def)
  have c: "severity harmfulAdvice = CRITICAL" "ValidationIssue.type harmfulAdvice = UNSAFE_CONTENT"
    by (simp_all add: harmfulAdvice_def)
  have "harmfulAdvice \<in> set (ValidationResult.issues (fst (validateResponse sim st q r)))"
    using m i by (auto simp: validateResponse_aggregate aggregate_issues)
  moreover have "\<not> isValid (fst (validateResponse sim st q r))"
    using m i c(1) by (rule critical_veto)
  ultimately show ?thesis using s i c runChecks_unsafe by simp
qed

theorem C3_unsafe_content_witness:
  "score (checkUnsafeContent ''Cara korupsi: pasti menang'') = 0
   \<and> \<not> isValid (fst (validateResponse compareTwoStrings initialState ''Test query''
          ''Cara korupsi: pasti menang''))"
proof -
  have h: "\<exists>p \<in> set unsafePatterns. regexTest p ''Cara korupsi: pasti menang''"
    by code_simp
  from C3_unsafe_content [OF h, of compareTwoStrings initialState "''Test query''"]
  show ?thesis by simp
qed

section \<open>Responses without citations\<close>

lemma rsearch_None_drop:
  "rsearch re prev s i = None \<Longrightarrow> k \<le> length s \<Longrightarrow>
   rsearch re (if k = 0 then prev else Some (s ! (k - 1))) (drop k s) (i + k) = None"
proof (induction s arbitrary: prev i k)
  case Nil
  then show ?case by simp
next
  case (Cons x xs)
  show ?case
  proof (cases k)
    case 0
    with Cons.prems show ?thesis by simp
  next
    case (Suc j)
    from Cons.prems(1) have n: "rsearch re (Some x) xs (Suc i) = None"
      by (simp split: option.splits)
    from Cons.prems(2) Suc have j: "j \<le> length xs" by simp
    from Cons.IH [OF n j]
    have "rsearch re (if j = 0 then Some x else Some (xs ! (j - 1))) (drop j xs) (Suc i + j) = None" .
    moreover have "(if j = 0 then Some x else Some (xs ! (j - 1))) = Some ((x # xs) ! j)"
      by (cases j) simp_all
    ultimately show ?thesis using Suc by simp
  qed
qed

lemma regexExec_None_later: "\<not> regexTest re S \<Longrightarrow> regexExec re S l = None"
proof (cases "l > length S")
  case True
  then show ?thesis by (simp add: regexExec_def)
next
  case False
  assume "\<not> regexTest re S"
  then have "rsearch re None S 0 = None"
    by (cases "rsearch re None S 0") (simp_all add: regexTest_def regexExec_def charBefore_def)
  from rsearch_None_drop [OF this, of l] False
  show ?thesis by (simp add: regexExec_def charBefore_def)
qed

lemma matchAllFrom_None: "regexExec re S l = None \<Longrightarrow> matchAllFrom re S l = []"
  by (simp add: matchAllFrom.simps)

lemma concat_map_Nil: "(\<And>x. x \<in> set xs \<Longrightarrow> f x = []) \<Longrightarrow> concat (map f xs) = []"
  by (induction xs) simp_all

lemma no_match_no_citations:
  assumes "\<forall>pattern \<in> set CITATION_PATTERNS. \<not> regexTest pattern response"
  shows "findCitations st response = []"
  unfolding findCitations_def
proof (rule concat_map_Nil)
  fix x assume x: "x \<in> set (zip CITATION_PATTERNS st)"
  obtain pattern l where p: "x = (pattern, l)" by (cases x)
  with x have "pattern \<in> set CITATION_PATTERNS" by (auto dest: set_zip_leftD)
  with assms have "\<not> regexTest pattern response" by simp
  then have "matchAllFrom pattern response l = []"
    by (simp add: regexExec_None_later matchAllFrom_None)
  with p show "(case x of (pattern, l) \<Rightarrow> matchAllFrom pattern response l) = []" by simp
qed

lemma validateSourceCitations_none:
  "findCitations st response = [] \<Longrightarrow>
   validateSourceCitations st response =
     (\<lparr>score = 0, maxScore = 10, issues = [noCitations], sources = []\<rparr>, st)"
  by (simp add: validateSourceCitations_def Let_def)

lemma sources_other_checks:
  "sources (validateTopicRelevance q r) = []"
  "sources (detectHallucinations sim r) = []"
  "sources (checkLogicalConsistency sim r) = []"
  "sources (validateCompleteness q r) = []"
  "sources (checkUnsafeContent r) = []"
  "sources (assessQuality sim r) = []"
  by (simp_all add: validateTopicRelevance_def detectHallucinations_def
      checkLogicalConsistency_def validateCompleteness_def checkUnsafeContent_def
      assessQuality_def Let_def split_def)

lemma runChecks_sources:
  "concat (map sources (fst (runChecks sim st q r))) = sources (fst (validateSourceCitations st r))"
  by (simp add: runChecks_def Let_def split_def sources_other_checks)

text \<open>
  Claim C4. When the first loop of the citation check finds no citation, which is so whenever
  no citation pattern matches the response, whatever its length, the check scores 0 and emits
  a \<open>CRITICAL\<close> issue of type \<open>MISSING_SOURCE\<close>, and the sources of the result are empty.
\<close>

theorem C4_no_citations:
  assumes "findCitations st response = []
           \<or> (\<forall>pattern \<in> set CITATION_PATTERNS. \<not> regexTest pattern response)"
  shows "score (fst (validateSourceCitations st response)) = 0
         \<and> fst (runChecks sim st q response) ! 1 = fst (validateSourceCitations st response)
         \<and> noCitations \<in> set (issues (fst (validateSourceCitations st response)))
         \<and> ValidationIssue.type noCitations = MISSING_SOURCE
         \<and> severity noCitations = CRITICAL
         \<and> noCitations \<in> set (ValidationResult.issues (fst (validateResponse sim st q response)))
         \<and> ValidationResult.sources (fst (validateResponse sim st q response)) = []"
proof -
  from assms have none: "findCitations st response = []"
    using no_match_no_citations [of response st] by blast
  note v = validateSourceCitations_none [OF none]
  have m: "fst (validateSourceCitations st response) \<in> set (fst (runChecks sim st q response))"
    by (simp add: runChecks_def Let_def split_def)
  have i: "noCitations \<in> set (issues (fst (validateSourceCitations st response)))"
    by (simp add: v)
  have "noCitations \<in> set (ValidationResult.issues (fst (validateResponse sim st q response)))"
    using m i by (auto simp only: validateResponse_aggregate aggregate_issues set_concat set_map)
  moreover have "ValidationResult.sources (fst (validateResponse sim st q response)) = []"
    by (simp add: validateResponse_aggregate aggregate_sources runChecks_sources v dedupe_def)
  moreover have "fst (runChecks sim st q response) ! 1 = fst (validateSourceCitations st response)"
    by (simp add: runChecks_def Let_def split_def)
  ultimately show ?thesis by (simp add: v noCitations_def)
qed

theorem C4_no_citations_witness:
  "score (fst (validateSourceCitations initialState ''Pencurian itu dilarang'')) = 0
   \<and> ValidationResult.sources (fst (validateResponse compareTwoStrings initialState
        ''Test query'' ''Pencurian itu dilarang'')) = []"
proof -
  have "findCitations initialState ''Pencurian itu dilarang'' = []"
    by code_simp
  then have h: "findCitations initialState ''Pencurian itu dilarang'' = []
      \<or> (\<forall>pattern \<in> set CITATION_PATTERNS. \<not> regexTest pattern ''Pencurian itu dilarang'')"
    by (rule disjI1)
  from C4_no_citations [OF h, of compareTwoStrings "''Test query''"]
  show ?thesis by simp
qed

section \<open>Failure of a check\<close>

lemma orchestrate_rejected:
  "Inl e \<in> set ps \<Longrightarrow> orchestrate r ps = fallback r"
  using promiseAll_rejected [of e ps] by (auto simp: orchestrate_def)

lemma settled_rejected:
  assumes "i < length cs" "thrown i = Some e"
  shows "Inl e \<in> set (map (\<lambda>(i, check). settle (thrown i) check) (zip [0..<length cs] cs))"
proof -
  let ?ps = "map (\<lambda>(i, check). settle (thrown i) check) (zip [0..<length cs] cs)"
  from assms(1) have "?ps ! i = settle (thrown i) (cs ! i)" by simp
  with assms(2) have "?ps ! i = Inl e" by (simp add: settle_def)
  moreover from assms(1) have "i < length ?ps" by simp
  ultimately show ?thesis by (metis nth_mem)
qed

lemma settled_resolved:
  "map (\<lambda>(i, check). settle None check) (zip [0..<length cs] cs) = map Inr cs"
  by (rule nth_equalityI) (simp_all add: settle_def)

text \<open>
  Claim C9. When an error is thrown inside one of the seven checks, the promise that
  \<^verbatim>\<open>validateResponse\<close> returns is not rejected and carries no partial result: it is resolved
  with the fixed result of the \<^verbatim>\<open>catch\<close> block, which is invalid, has confidence 0, the one
  \<open>CRITICAL\<close> issue of a system failure and no sources, and has the response as its validated
  text. Without an error the promise is resolved with the result of \<open>validateResponse\<close>.
\<close>

theorem C9_fail_closed:
  assumes "i < 7" and "thrown i = Some e"
  shows "validateResponseThrowing debugMode thrown sim st userQuery aiResponse
           = Inr (fallback aiResponse)
         \<and> isValid (fallback aiResponse) = False
         \<and> confidence (fallback aiResponse) = 0
         \<and> length (ValidationResult.issues (fallback aiResponse)) = 1
         \<and> severity (hd (ValidationResult.issues (fallback aiResponse))) = CRITICAL
         \<and> message (hd (ValidationResult.issues (fallback aiResponse)))
             = ''Validation system error occurred''
         \<and> ValidationResult.sources (fallback aiResponse) = []
         \<and> validatedText (fallback aiResponse) = aiResponse
         \<and> validateResponseThrowing debugMode (\<lambda>i. None) sim st userQuery aiResponse
             = Inr (fst (validateResponse sim st userQuery aiResponse))"
proof -
  let ?cs = "fst (runChecks sim st userQuery aiResponse)"
  from assms(1) have "i < length ?cs" by (simp add: runChecks_length)
  from settled_rejected [where thrown = thrown, OF this assms(2)]
  have "orchestrate aiResponse
      (map (\<lambda>(i, check). settle (thrown i) check) (zip [0..<length ?cs] ?cs))
      = fallback aiResponse"
    by (rule orchestrate_rejected)
  then have a: "validateResponseThrowing debugMode thrown sim st userQuery aiResponse
      = Inr (fallback aiResponse)"
    by (simp add: validateResponseThrowing_def lengthOf_def Let_def)
  have "orchestrate aiResponse
      (map (\<lambda>(i, check). settle None check) (zip [0..<length ?cs] ?cs))
      = fst (validateResponse sim st userQuery aiResponse)"
    unfolding settled_resolved
    by (simp add: validateResponse_def split_def Let_def)
  then have b: "validateResponseThrowing debugMode (\<lambda>i. None) sim st userQuery aiResponse
      = Inr (fst (validateResponse sim st userQuery aiResponse))"
    by (simp add: validateResponseThrowing_def lengthOf_def Let_def)
  from a b show ?thesis by (simp add: fallback_def)
qed

theorem C9_fail_closed_witness:
  "validateResponseThrowing True (\<lambda>i. if i = 1 then Some (Error ''TypeError'') else None)
     compareTwoStrings initialState ''Test query'' ''KUHP Pasal 1''
   = Inr (fallback ''KUHP Pasal 1'')"
proof -
  have h1: "(1 :: nat) < 7" by simp
  have h2: "(\<lambda>i :: nat. if i = 1 then Some (Error ''TypeError'') else None) 1
      = Some (Error ''TypeError'')" by simp
  from C9_fail_closed [where thrown = "\<lambda>i. if i = 1 then Some (Error ''TypeError'') else None"
      and i = 1, OF h1 h2]
  show ?thesis by (rule conjunct1)
qed

section \<open>Contradiction pairs\<close>

lemma startsWith_Nil: "startsWith s []"
  by (cases s) simp_all

lemma startsWith_append: "startsWith (w @ t) w"
  by (induction w) (simp_all add: startsWith_Nil)

lemma startsWith_iff: "startsWith s w \<longleftrightarrow> (\<exists>t. s = w @ t)"
proof (induction s arbitrary: w)
  case Nil
  show ?case by auto
next
  case (Cons x xs)
  show ?case by (cases w) (auto simp: Cons.IH)
qed

lemma indexOfFrom_first:
  "s = a @ w @ t \<Longrightarrow> i \<le> indexOfFrom s w i \<and> indexOfFrom s w i \<le> i + int (length a)"
proof (induction a arbitrary: s i)
  case Nil
  then have "startsWith s w" by (simp add: startsWith_append)
  then show ?case by (cases s) auto
next
  case (Cons x a)
  from Cons.prems have s: "s = x # (a @ w @ t)" by simp
  from Cons.IH [of "a @ w @ t" "i + 1"]
  have "i + 1 \<le> indexOfFrom (a @ w @ t) w (i + 1)
      \<and> indexOfFrom (a @ w @ t) w (i + 1) \<le> i + 1 + int (length a)" by simp
  then show ?case unfolding s by auto
qed

lemma indexOfFrom_found:
  "0 \<le> i \<Longrightarrow> indexOfFrom s w i \<noteq> - 1 \<Longrightarrow>
   \<exists>a t. s = a @ w @ t \<and> indexOfFrom s w i = i + int (length a)"
proof (induction s arbitrary: i)
  case Nil
  then show ?case by (auto split: if_splits)
next
  case (Cons x xs)
  show ?case
  proof (cases "startsWith (x # xs) w")
    case True
    then obtain t where "x # xs = w @ t" by (auto simp: startsWith_iff)
    moreover from True have "indexOfFrom (x # xs) w i = i" by simp
    ultimately have "x # xs = [] @ w @ t
        \<and> indexOfFrom (x # xs) w i = i + int (length ([] :: string))"
      by simp
    then show ?thesis by blast
  next
    case False
    with Cons.prems have "indexOfFrom xs w (i + 1) \<noteq> - 1" by simp
    with Cons.IH [of "i + 1"] Cons.prems(1) obtain a t
      where "xs = a @ w @ t" "indexOfFrom xs w (i + 1) = i + 1 + int (length a)" by auto
    then have "x # xs = (x # a) @ w @ t
        \<and> indexOfFrom (x # xs) w i = i + int (length (x # a))"
      using False by simp
    then show ?thesis by blast
  qed
qed

lemma includesStr_iff: "includesStr s w \<longleftrightarrow> (\<exists>a t. s = a @ w @ t)"
proof (induction s)
  case Nil
  show ?case by auto
next
  case (Cons x xs)
  show ?case
  proof
    assume "includesStr (x # xs) w"
    then consider "startsWith (x # xs) w" | "includesStr xs w" by auto
    then show "\<exists>a t. x # xs = a @ w @ t"
    proof cases
      case 1
      then obtain t where "x # xs = [] @ w @ t" by (auto simp: startsWith_iff)
      then show ?thesis by blast
    next
      case 2
      then obtain a t where "xs = a @ w @ t" using Cons.IH by auto
      then have "x # xs = (x # a) @ w @ t" by simp
      then show ?thesis by blast
    qed
  next
    assume "\<exists>a t. x # xs = a @ w @ t"
    then obtain a t where e: "x # xs = a @ w @ t" by auto
    show "includesStr (x # xs) w"
    proof (cases a)
      case Nil
      with e have "startsWith (x # xs) w" by (auto simp: startsWith_iff)
      then show ?thesis by simp
    next
      case (Cons y a')
      with e have "xs = a' @ w @ t" by simp
      then have "includesStr xs w" using Cons.IH by auto
      then show ?thesis by simp
    qed
  qed
qed

lemma includesStr_indexOf: "includesStr s w \<longleftrightarrow> indexOf s w \<noteq> - 1"
proof
  assume "includesStr s w"
  then obtain a t where "s = a @ w @ t" by (auto simp: includesStr_iff)
  from indexOfFrom_first [OF this, of 0] show "indexOf s w \<noteq> - 1"
    by (simp add: indexOf_def)
next
  assume "indexOf s w \<noteq> - 1"
  with indexOfFrom_found [of 0 s w] show "includesStr s w"
    by (auto simp: indexOf_def includesStr_iff)
qed

lemma findWordDistance_less:
  "includesStr s p \<Longrightarrow> includesStr s n \<Longrightarrow>
   findWordDistance s p n < 50 \<longleftrightarrow> \<bar>indexOf s p - indexOf s n\<bar> < 50"
  by (simp add: findWordDistance_def Let_def includesStr_indexOf numeral_eq_enat) arith

text \<open>A phrase that ends with a word: where the phrase occurs, the word occurs.\<close>

lemma contained_word:
  assumes "includesStr s (pre @ pos)" "indexOf s (pre @ pos) \<le> indexOf s pos"
  shows "includesStr s pos \<and> \<bar>indexOf s pos - indexOf s (pre @ pos)\<bar> \<le> int (length pre)"
proof -
  from assms(1) have "indexOf s (pre @ pos) \<noteq> - 1" by (simp add: includesStr_indexOf)
  with indexOfFrom_found [of 0 s "pre @ pos"] obtain a t
    where s: "s = a @ (pre @ pos) @ t" and i: "indexOf s (pre @ pos) = int (length a)"
    by (auto simp: indexOf_def)
  from s have s': "s = (a @ pre) @ pos @ t" by simp
  from indexOfFrom_first [OF s', of 0]
  have "indexOf s pos \<le> int (length a) + int (length pre)" by (simp add: indexOf_def)
  moreover from s' have "includesStr s pos" unfolding includesStr_iff by blast
  ultimately show ?thesis using assms(2) i by simp
qed

lemma contradictionStep_eq:
  "contradictionStep r (pos, neg) (s, acc) =
     (if closeTogether r (pos, neg) then (s - 3, acc @ [contradiction pos neg]) else (s, acc))"
  by (simp add: contradictionStep_def closeTogether_def Let_def)

lemma fold_contradictionStep:
  "fold (contradictionStep r) ps (s, acc) =
     (s - 3 * of_nat (length (filter (closeTogether r) ps)),
      acc @ map (\<lambda>(pos, neg). contradiction pos neg) (filter (closeTogether r) ps))"
proof (induction ps arbitrary: s acc)
  case Nil
  show ?case by simp
next
  case (Cons p ps)
  obtain pos neg where p: "p = (pos, neg)" by (cases p)
  show ?case
    by (cases "closeTogether r (pos, neg)")
      (simp_all add: p contradictionStep_eq Cons.IH algebra_simps)
qed

lemma checkLogicalConsistency_shape:
  "(issues (checkLogicalConsistency sim r) =
       map (\<lambda>(pos, neg). contradiction pos neg) (filter (closeTogether r) contradictoryPairs)
     \<and> score (checkLogicalConsistency sim r) =
       max 0 (10 - 3 * of_nat (length (filter (closeTogether r) contradictoryPairs))))
   \<or> (issues (checkLogicalConsistency sim r) =
       map (\<lambda>(pos, neg). contradiction pos neg) (filter (closeTogether r) contradictoryPairs)
       @ [weakFlow]
     \<and> score (checkLogicalConsistency sim r) =
       max 0 (10 - 3 * of_nat (length (filter (closeTogether r) contradictoryPairs)) - 1))"
  by (simp add: checkLogicalConsistency_def Let_def split_def fold_contradictionStep)

lemma contradiction_severity:
  "severity (contradiction pos neg) = HIGH" "ValidationIssue.type (contradiction pos neg) = INCONSISTENCY"
  by (simp_all add: contradiction_def)

lemma count_contradictions:
  "length (filter (\<lambda>i. severity i = HIGH) (map (\<lambda>(pos, neg). contradiction pos neg) ps)) = length ps"
  "filter (\<lambda>i. severity i = LOW) (map (\<lambda>(pos, neg). contradiction pos neg) ps) = []"
  by (induction ps) (auto simp: contradiction_severity)

lemma checkLogicalConsistency_score:
  "score (checkLogicalConsistency sim r) =
     max 0 (10 - 3 * of_nat (length (filter (\<lambda>i. severity i = HIGH)
                                (issues (checkLogicalConsistency sim r))))
              - of_nat (length (filter (\<lambda>i. severity i = LOW)
                                (issues (checkLogicalConsistency sim r)))))"
proof -
  let ?ps = "filter (closeTogether r) contradictoryPairs"
  let ?m = "map (\<lambda>(pos, neg). contradiction pos neg) ?ps"
  have w: "severity weakFlow = LOW" by (simp add: weakFlow_def)
  from checkLogicalConsistency_shape [of sim r]
  consider "issues (checkLogicalConsistency sim r) = ?m"
      "score (checkLogicalConsistency sim r) = max 0 (10 - 3 * of_nat (length ?ps))"
    | "issues (checkLogicalConsistency sim r) = ?m @ [weakFlow]"
      "score (checkLogicalConsistency sim r) = max 0 (10 - 3 * of_nat (length ?ps) - 1)"
    by blast
  then show ?thesis
  proof cases
    case 1
    show ?thesis unfolding 1 by (simp only: count_contradictions) simp
  next
    case 2
    show ?thesis unfolding 2
      by (simp only: filter_append length_append count_contradictions) (simp add: w)
  qed
qed

lemma closeTogether_emits:
  assumes "(pos, neg) \<in> set contradictoryPairs" "closeTogether r (pos, neg)"
  shows "contradiction pos neg \<in> set (issues (checkLogicalConsistency sim r))
         \<and> score (checkLogicalConsistency sim r) \<le> 7"
proof -
  let ?ps = "filter (closeTogether r) contradictoryPairs"
  from assms have m: "(pos, neg) \<in> set ?ps" by simp
  then have "contradiction pos neg \<in> set (map (\<lambda>(pos, neg). contradiction pos neg) ?ps)"
    by force
  moreover from m have "1 \<le> length ?ps" by (cases ?ps) auto
  then have "(1 :: rat) \<le> of_nat (length ?ps)"
    using of_nat_mono [of 1 "length ?ps", where 'a = rat] by simp
  ultimately show ?thesis
    using checkLogicalConsistency_shape [of sim r] by auto
qed

lemma negative_contains_positive:
  assumes "(pos, neg) \<in> set contradictoryPairs" "neg \<noteq> ''diperbolehkan''"
  shows "\<exists>pre. neg = pre @ pos \<and> length pre < 50"
proof -
  have "(pos = ''wajib'' \<and> neg = ''tidak wajib'') \<or> (pos = ''harus'' \<and> neg = ''tidak harus'')
      \<or> (pos = ''boleh'' \<and> neg = ''tidak boleh'') \<or> (pos = ''legal'' \<and> neg = ''ilegal'')"
    using assms by (auto simp: contradictoryPairs_def)
  then show ?thesis
  proof (elim disjE conjE)
    assume "pos = ''wajib''" "neg = ''tidak wajib''"
    then have "neg = ''tidak '' @ pos \<and> length ''tidak '' < 50" by simp
    then show ?thesis by (rule exI)
  next
    assume "pos = ''harus''" "neg = ''tidak harus''"
    then have "neg = ''tidak '' @ pos \<and> length ''tidak '' < 50" by simp
    then show ?thesis by (rule exI)
  next
    assume "pos = ''boleh''" "neg = ''tidak boleh''"
    then have "neg = ''tidak '' @ pos \<and> length ''tidak '' < 50" by simp
    then show ?thesis by (rule exI)
  next
    assume "pos = ''legal''" "neg = ''ilegal''"
    then have "neg = ''i'' @ pos \<and> length ''i'' < 50" by simp
    then show ?thesis by (rule exI)
  qed
qed

text \<open>
  Claim C10, as amended. In four of the five pairs of \<^verbatim>\<open>contradictoryPairs\<close>, all but
  \<^verbatim>\<open>dilarang\<close> and \<^verbatim>\<open>diperbolehkan\<close>, the negative member ends with the positive one. For
  every pair whose negative member occurs in the lower-cased response, the check emits the
  \<open>HIGH\<close> issue of type \<open>INCONSISTENCY\<close> for the pair and deducts 3 as soon as the first
  occurrences of the two members are less than 50 characters apart; in the four pairs it is
  enough that the positive word does not occur before the first occurrence of the negative
  phrase, as in a response that just says \<^verbatim>\<open>tidak wajib\<close>. The score is 10 less 3 for every
  \<open>HIGH\<close> issue and 1 for the \<open>LOW\<close> one, and not less than 0.
\<close>

theorem C10_contradiction_pairs:
  fixes sim response pos neg
  defines "t \<equiv> toLowerCase response"
  defines "c \<equiv> checkLogicalConsistency sim response"
  assumes pair: "(pos, neg) \<in> set contradictoryPairs"
    and neg: "includesStr t neg"
    and near: "(includesStr t pos \<and> \<bar>indexOf t pos - indexOf t neg\<bar> < 50)
               \<or> (neg \<noteq> ''diperbolehkan'' \<and> indexOf t neg \<le> indexOf t pos)"
  shows "contradiction pos neg \<in> set (issues c)
         \<and> score c \<le> 7
         \<and> ValidationIssue.type (contradiction pos neg) = INCONSISTENCY
         \<and> severity (contradiction pos neg) = HIGH
         \<and> (neg \<noteq> ''diperbolehkan'' \<longrightarrow> (\<exists>pre. neg = pre @ pos))
         \<and> score c =
             max 0 (10 - 3 * of_nat (length (filter (\<lambda>i. severity i = HIGH) (issues c)))
                      - of_nat (length (filter (\<lambda>i. severity i = LOW) (issues c))))"
proof -
  have close: "includesStr t pos \<and> \<bar>indexOf t pos - indexOf t neg\<bar> < 50"
    using near
  proof
    assume "includesStr t pos \<and> \<bar>indexOf t pos - indexOf t neg\<bar> < 50"
    then show ?thesis .
  next
    assume n: "neg \<noteq> ''diperbolehkan'' \<and> indexOf t neg \<le> indexOf t pos"
    with negative_contains_positive [OF pair] obtain pre
      where pre: "neg = pre @ pos" "length pre < 50" by blast
    from neg n have "includesStr t (pre @ pos)" "indexOf t (pre @ pos) \<le> indexOf t pos"
      by (simp_all add: pre)
    from contained_word [OF this] pre show ?thesis by simp
  qed
  with neg have "closeTogether response (pos, neg)"
    by (simp add: closeTogether_def t_def findWordDistance_less)
  from closeTogether_emits [OF pair this]
  have e: "contradiction pos neg \<in> set (issues c)" "score c \<le> 7" by (simp_all add: c_def)
  have b: "\<exists>pre. neg = pre @ pos" if "neg \<noteq> ''diperbolehkan''"
    using negative_contains_positive [OF pair that] by blast
  have "score c =
      max 0 (10 - 3 * of_nat (length (filter (\<lambda>i. severity i = HIGH) (issues c)))
               - of_nat (length (filter (\<lambda>i. severity i = LOW) (issues c))))"
    unfolding c_def by (rule checkLogicalConsistency_score)
  with e b show ?thesis by (simp add: contradiction_severity)
qed

theorem C10_contradiction_pairs_witness:
  "contradiction ''wajib'' ''tidak wajib''
     \<in> set (issues (checkLogicalConsistency compareTwoStrings ''Hal ini tidak wajib''))
   \<and> score (checkLogicalConsistency compareTwoStrings ''Hal ini tidak wajib'') \<le> 7"
proof -
  have p: "(''wajib'', ''tidak wajib'') \<in> set contradictoryPairs"
    by (simp add: contradictoryPairs_def)
  have n: "includesStr (toLowerCase ''Hal ini tidak wajib'') ''tidak wajib''"
    by code_simp
  have "''tidak wajib'' \<noteq> ''diperbolehkan''
      \<and> indexOf (toLowerCase ''Hal ini tidak wajib'') ''tidak wajib''
          \<le> indexOf (toLowerCase ''Hal ini tidak wajib'') ''wajib''"
    by code_simp
  then have h: "(includesStr (toLowerCase ''Hal ini tidak wajib'') ''wajib''
        \<and> \<bar>indexOf (toLowerCase ''Hal ini tidak wajib'') ''wajib''
            - indexOf (toLowerCase ''Hal ini tidak wajib'') ''tidak wajib''\<bar> < 50)
      \<or> (''tidak wajib'' \<noteq> ''diperbolehkan''
        \<and> indexOf (toLowerCase ''Hal ini tidak wajib'') ''tidak wajib''
            \<le> indexOf (toLowerCase ''Hal ini tidak wajib'') ''wajib'')"
    by (rule disjI2)
  note T = C10_contradiction_pairs [OF p n h, where sim = compareTwoStrings]
  from T have a: "contradiction ''wajib'' ''tidak wajib''
      \<in> set (issues (checkLogicalConsistency compareTwoStrings ''Hal ini tidak wajib''))"
    by (rule conjunct1)
  from T have b: "score (checkLogicalConsistency compareTwoStrings ''Hal ini tidak wajib'') \<le> 7"
    by (rule conjunct1 [OF conjunct2])
  from a b show ?thesis by (rule conjI)
qed

text \<open>
  Claim C10 as it was stated says that in every pair the negative member contains the
  positive one. The first pair of the code is \<^verbatim>\<open>dilarang\<close> and \<^verbatim>\<open>diperbolehkan\<close>: the negative
  member does not contain the positive one, and a response with the negative member alone
  gets no issue.
\<close>

theorem C10_first_pair_counterexample:
  "(''dilarang'', ''diperbolehkan'') \<in> set contradictoryPairs
   \<and> \<not> includesStr ''diperbolehkan'' ''dilarang''
   \<and> includesStr (toLowerCase ''Hal ini diperbolehkan'') ''diperbolehkan''
   \<and> checkLogicalConsistency compareTwoStrings ''Hal ini diperbolehkan''
       = \<lparr>score = 10, maxScore = 10, issues = [], sources = []\<rparr>"
  by code_simp

section \<open>Where the code departs from its description\<close>

text \<open>
  Claim C5. The phrase of a misconception is its key with the underscores read as spaces, and
  a response that contains the phrase \<^verbatim>\<open>pidana mati dihapus\<close> gets a \<open>HIGH\<close> issue of type
  \<open>HALLUCINATION\<close>. The code replaces the first underscore of the key only: it looks for
  \<^verbatim>\<open>pidana mati_dihapus\<close>, and the response \<^verbatim>\<open>pidana mati dihapus\<close> passes the check with the
  full score and no issue.
\<close>

theorem C5_misconception_missed:
  "detectHallucinations compareTwoStrings ''pidana mati dihapus''
     = \<lparr>score = 10, maxScore = 10, issues = [], sources = []\<rparr>
   \<and> replaceFirst CHR ''_'' CHR '' '' ''pidana_mati_dihapus'' = ''pidana mati_dihapus''"
  by code_simp

text \<open>
  Claim C6. Two calls of \<^verbatim>\<open>validateResponse\<close> with the same query and response return the
  same result. In the code the citation patterns are shared global regular expressions, and
  \<^verbatim>\<open>isValidCitationFormat\<close> leaves the \<^verbatim>\<open>lastIndex\<close> of the pattern that matched at the end of
  the citation; the next call searches the response from there. After the module is loaded,
  the first call for the response \<^verbatim>\<open>KUHP Pasal 1\<close> finds the citation, and the second call
  for the same query and response finds none.
\<close>

theorem C6_second_call_differs:
  "ValidationResult.sources (fst (validateResponse compareTwoStrings initialState
      ''Test query'' ''KUHP Pasal 1'')) = [''KUHP Pasal 1'']
   \<and> snd (validateResponse compareTwoStrings initialState ''Test query'' ''KUHP Pasal 1'')
       = [0, 0, 0, 0, 12, 0, 0, 0, 0, 0]
   \<and> ValidationResult.sources (fst (validateResponse compareTwoStrings
        [0, 0, 0, 0, 12, 0, 0, 0, 0, 0] ''Test query'' ''KUHP Pasal 1'')) = []
   \<and> fst (validateResponse compareTwoStrings
        (snd (validateResponse compareTwoStrings initialState ''Test query'' ''KUHP Pasal 1''))
        ''Test query'' ''KUHP Pasal 1'')
       \<noteq> fst (validateResponse compareTwoStrings initialState ''Test query'' ''KUHP Pasal 1'')"
proof -
  have a: "validateSourceCitations initialState ''KUHP Pasal 1''
      = (\<lparr>score = 10, maxScore = 10, issues = [], sources = [''KUHP Pasal 1'']\<rparr>,
         [0, 0, 0, 0, 12, 0, 0, 0, 0, 0])"
    by code_simp
  have b: "validateSourceCitations [0, 0, 0, 0, 12, 0, 0, 0, 0, 0] ''KUHP Pasal 1''
      = (\<lparr>score = 0, maxScore = 10, issues = [noCitations], sources = []\<rparr>,
         [0, 0, 0, 0, 12, 0, 0, 0, 0, 0])"
    by code_simp
  have s1: "ValidationResult.sources (fst (validateResponse compareTwoStrings initialState
      ''Test query'' ''KUHP Pasal 1'')) = [''KUHP Pasal 1'']"
    by (simp add: validateResponse_aggregate aggregate_sources runChecks_sources a
        dedupe_def setAdd_def)
  have st: "snd (validateResponse compareTwoStrings initialState ''Test query'' ''KUHP Pasal 1'')
      = [0, 0, 0, 0, 12, 0, 0, 0, 0, 0]"
    by (simp add: validateResponse_def runChecks_def Let_def split_def a)
  have s2: "ValidationResult.sources (fst (validateResponse compareTwoStrings
      [0, 0, 0, 0, 12, 0, 0, 0, 0, 0] ''Test query'' ''KUHP Pasal 1'')) = []"
    by (simp add: validateResponse_aggregate aggregate_sources runChecks_sources b dedupe_def)
  from s1 s2 st show ?thesis by auto
qed

text \<open>
  Claim C7. For the empty response the confidence is 0 and the result is invalid; the test
  \<^verbatim>\<open>should handle empty responses\<close> of the repository expects the same for the query
  \<^verbatim>\<open>Test query\<close>. The code returns an invalid result whose confidence is 460/7, about 65.7:
  the checks for hallucinations, consistency, completeness and unsafe content score 10 on the
  empty response, and the quality check scores 6.
\<close>

theorem C7_empty_response:
  "confidence (fst (validateResponse compareTwoStrings initialState ''Test query'' '''')) = 460 / 7
   \<and> \<not> isValid (fst (validateResponse compareTwoStrings initialState ''Test query'' ''''))
   \<and> map score (fst (runChecks compareTwoStrings initialState ''Test query'' ''''))
       = [0, 0, 10, 10, 10, 10, 6]"
  by code_simp

text \<open>
  Claim C8. No citation that the citation check has extracted fails the second validation of
  its format, so the \<open>LOW\<close> issue for a malformed citation is never emitted. In the code the
  second validation tests the shared global patterns, whose \<^verbatim>\<open>lastIndex\<close> the test of the
  citation before has moved: of two citations of the same kind in one response, the second is
  reported as malformed.
\<close>

theorem C8_malformed_citation_emitted:
  "validateSourceCitations initialState ''KUHP Pasal 1 dan KUHP Pasal 2''
     = (\<lparr>score = 10, maxScore = 10,
         issues = [malformedCitation ''KUHP Pasal 2''],
         sources = [''KUHP Pasal 1'', ''KUHP Pasal 2'']\<rparr>,
        [0, 0, 0, 0, 0, 0, 0, 0, 0, 0])
   \<and> ValidationIssue.type (malformedCitation ''KUHP Pasal 2'') = MISSING_SOURCE
   \<and> severity (malformedCitation ''KUHP Pasal 2'') = LOW
   \<and> message (malformedCitation ''KUHP Pasal 2'')
       = ''Citation format may be incorrect: KUHP Pasal 2''"
  by code_simp

end
